theory Spec2Isabelle
  imports Complex_Main
begin

section \<open>Numbers\<close>

text \<open>
  The program is JavaScript (\<^verbatim>\<open>script.js\<close>); its numbers are IEEE-754 doubles. The
  embedding reads them as real numbers: \<open>+\<close>, \<open>-\<close>, \<open>*\<close>, \<open>/\<close> and \<open>Math.sqrt\<close>
  are the exact operations of \<^typ>\<open>real\<close>, so rounding is left out. \<open>NaN\<close> is modelled only
  where the program tests for it (\<open>isNaN\<close> on the result of \<open>parseFloat\<close>, a
  \<^typ>\<open>real option\<close> with \<open>None\<close> for \<open>NaN\<close>). JavaScript and HOL differ where a
  division has a zero divisor or a root a negative argument (JavaScript yields an infinity
  or \<open>NaN\<close>, HOL yields \<open>0\<close> and \<open>- sqrt (- x)\<close>): a theorem whose statement depends
  on such a value carries the hypothesis that excludes that case.
  Where rounding or overflow decides what the program does, the functions concerned are
  given a second time over binary64 values (the names ending in \<open>_d\<close>).
\<close>

section \<open>Statistics: \<open>linearRegression\<close>\<close>

record regression =
  slope :: real
  intercept :: real
  r2 :: real

text \<open>The five accumulators of the loop of \<open>linearRegression\<close>.\<close>

record lr_sums =
  sum_x :: real
  sum_y :: real
  sum_xy :: real
  sum_xx :: real
  sum_yy :: real

text \<open>
  One iteration of the \<open>for\<close> loop at index \<open>i\<close>. The loop reads \<open>x[i]\<close> and \<open>y[i]\<close> for
  \<open>i < x.length\<close>; \<open>y[i]\<close> is in range when \<open>y\<close> is at least as long as \<open>x\<close>, which the
  theorems about the sums over \<open>y\<close> assume (every caller passes two arrays mapped from one
  array of readings).
\<close>

definition lr_body :: "real list \<Rightarrow> real list \<Rightarrow> nat \<Rightarrow> lr_sums \<Rightarrow> lr_sums" where
  "lr_body x y i s =
     \<lparr>sum_x = sum_x s + x ! i,
      sum_y = sum_y s + y ! i,
      sum_xy = sum_xy s + (x ! i * y ! i),
      sum_xx = sum_xx s + (x ! i * x ! i),
      sum_yy = sum_yy s + (y ! i * y ! i)\<rparr>"

text \<open>\<open>for (let i = 0; i < n; i++)\<close>, from all sums \<open>0\<close>.\<close>

definition lr_loop :: "nat \<Rightarrow> real list \<Rightarrow> real list \<Rightarrow> lr_sums" where
  "lr_loop n x y =
     fold (lr_body x y) [0..<n]
       \<lparr>sum_x = 0, sum_y = 0, sum_xy = 0, sum_xx = 0, sum_yy = 0\<rparr>"

definition linearRegression :: "real list \<Rightarrow> real list \<Rightarrow> regression" where
  "linearRegression x y =
     (let n = length x in
      if n = 0 then \<lparr>slope = 0, intercept = 0, r2 = 0\<rparr>
      else
        let s = lr_loop n x y;
            denominator = real n * sum_xx s - sum_x s * sum_x s
        in
          if denominator = 0 then \<lparr>slope = 0, intercept = 0, r2 = 0\<rparr>
          else
            let slope = (real n * sum_xy s - sum_x s * sum_y s) / denominator;
                intercept = (sum_y s - slope * sum_x s) / real n;
                r2_denominator =
                  sqrt ((real n * sum_xx s - sum_x s * sum_x s)
                        * (real n * sum_yy s - sum_y s * sum_y s));
                r2 = (if r2_denominator = 0 then 1
                      else ((real n * sum_xy s - sum_x s * sum_y s) / r2_denominator)\<^sup>2)
            in \<lparr>slope = slope, intercept = intercept, r2 = r2\<rparr>)"

text \<open>The sums of the specification, over the first \<open>n\<close> indices.\<close>

definition Sx :: "real list \<Rightarrow> nat \<Rightarrow> real" where
  "Sx x n = (\<Sum>i<n. x ! i)"

definition Sxy :: "real list \<Rightarrow> real list \<Rightarrow> nat \<Rightarrow> real" where
  "Sxy x y n = (\<Sum>i<n. x ! i * y ! i)"

section \<open>Shared state of the two experiments\<close>

text \<open>
  \<open>mode\<close> is the string \<open>'simulation'\<close> or \<open>'manual'\<close>; every test of it in the program is
  \<open>mode === 'simulation'\<close>, with manual as the other branch.
\<close>

datatype mode = Simulation | Manual

text \<open>
  What a call shows through \<open>showNotification\<close> before it returns early; a call that
  records its reading shows none.
\<close>

datatype notification =
  EnterValidPositive | LengthExists | MassTooLight | InvalidParameters | NonPhysicalResult

fun notification_text :: "notification \<Rightarrow> string" where
  "notification_text EnterValidPositive = ''Please enter valid positive numbers.''"
| "notification_text LengthExists = ''A reading for this length already exists.''"
| "notification_text MassTooLight = ''Mass is too light.''"
| "notification_text InvalidParameters = ''Invalid parameters.''"
| "notification_text NonPhysicalResult = ''Non-physical result. Check inputs.''"

section \<open>Experiment 1: simple pendulum\<close>

text \<open>
  A reading \<open>{sno, L, t, T, T2}\<close>; the fields carry the prefix \<open>sp_\<close> (a field of an
  Isabelle record is a constant of the theory).
\<close>

record sp_reading =
  sp_sno :: nat
  sp_L :: real
  sp_t :: real
  sp_T :: real
  sp_T2 :: real

text \<open>\<open>sp_state\<close> without its chart and DOM handles.\<close>

record sp_state =
  sp_readings :: "sp_reading list"
  sp_mode :: mode
  sp_gravity :: real

text \<open>
  What \<open>sp_addReading\<close> reads from outside \<open>sp_state\<close>: the parsed values of the DOM
  controls and the draw of \<open>Math.random()\<close>. The two sliders always hold a number; a manual
  entry parses to a number or to \<open>NaN\<close> (\<open>None\<close>).
\<close>

record sp_inputs =
  oscillationsSlider :: int
  lengthSlider :: real
  manualLengthInput :: "real option"
  manualTimeInput :: "real option"
  sp_random :: real

text \<open>The value of the environment select: \<open>'unknown'\<close> or the text of a number.\<close>

datatype environment = UnknownEnvironment | KnownEnvironment real

definition sp_setSimulationGravity :: "environment \<Rightarrow> real \<Rightarrow> sp_state \<Rightarrow> sp_state" where
  "sp_setSimulationGravity envVal rnd s =
     s\<lparr>sp_gravity :=
         (case envVal of UnknownEnvironment \<Rightarrow> 5 + rnd * 15 | KnownEnvironment v \<Rightarrow> v)\<rparr>"

definition sp_setMode :: "mode \<Rightarrow> sp_state \<Rightarrow> sp_state" where
  "sp_setMode m s = s\<lparr>sp_mode := m\<rparr>"

text \<open>
  \<open>initPendulumExperiment\<close>: a fresh state, the environment select set to \<open>'unknown'\<close>,
  simulation mode, a drawn gravity.
\<close>

definition initPendulumExperiment :: "real \<Rightarrow> sp_state" where
  "initPendulumExperiment rnd =
     sp_setSimulationGravity UnknownEnvironment rnd
       (sp_setMode Simulation \<lparr>sp_readings = [], sp_mode = Simulation, sp_gravity = 0\<rparr>)"

text \<open>The \<open>change\<close> handler of the environment select.\<close>

definition sp_environmentChange :: "environment \<Rightarrow> real \<Rightarrow> sp_state \<Rightarrow> sp_state" where
  "sp_environmentChange envVal rnd s = sp_setSimulationGravity envVal rnd (s\<lparr>sp_readings := []\<rparr>)"

text \<open>
  The first half of \<open>sp_addReading\<close>: the length and the measured time of the new reading,
  simulated or entered.
\<close>

definition sp_measure :: "sp_inputs \<Rightarrow> sp_state \<Rightarrow> notification + real \<times> real" where
  "sp_measure inp s =
     (let n = oscillationsSlider inp in
      if sp_mode s = Simulation then
        let L = lengthSlider inp;
            T_theoretical = 2 * pi * sqrt (L / sp_gravity s);
            t_measured = (real_of_int n * T_theoretical) * (1 + (sp_random inp - 0.5) * 0.04)
        in Inr (L, t_measured)
      else
        (case (manualLengthInput inp, manualTimeInput inp) of
           (Some L, Some t_measured) \<Rightarrow>
             if L \<le> 0 \<or> t_measured \<le> 0 then Inl EnterValidPositive else Inr (L, t_measured)
         | _ \<Rightarrow> Inl EnterValidPositive))"

text \<open>\<open>forEach((r, i) => r.sno = i + 1)\<close>.\<close>

definition renumber :: "sp_reading list \<Rightarrow> sp_reading list" where
  "renumber rs = map (\<lambda>(i, r). r\<lparr>sp_sno := i + 1\<rparr>) (enumerate 0 rs)"

text \<open>
  \<open>sp_addReading\<close> returns the notification it showed, if any, and the state it left.
  \<open>sort((a, b) => a.L - b.L)\<close> is the stable ascending sort by \<open>L\<close>.
\<close>

definition sp_addReading :: "sp_inputs \<Rightarrow> sp_state \<Rightarrow> notification option \<times> sp_state" where
  "sp_addReading inp s =
     (let n = oscillationsSlider inp in
      case sp_measure inp s of
        Inl e \<Rightarrow> (Some e, s)
      | Inr (L, t_measured) \<Rightarrow>
          if list_ex (\<lambda>r. sp_L r = L) (sp_readings s) then (Some LengthExists, s)
          else
            let T = t_measured / real_of_int n;
                pushed = sp_readings s @ [\<lparr>sp_sno = 0, sp_L = L, sp_t = t_measured, sp_T = T, sp_T2 = T * T\<rparr>]
            in (None, s\<lparr>sp_readings := renumber (sort_key sp_L pushed)\<rparr>))"

text \<open>
  The result panel of \<open>sp_updateUI\<close>: nothing below two readings, else the slope, the
  calculated \<open>g\<close> and \<open>R\<^sup>2\<close>.
\<close>

record sp_result =
  graph_slope :: real
  calculated_g :: real
  correlation :: real

definition sp_updateUI :: "sp_state \<Rightarrow> sp_result option" where
  "sp_updateUI s =
     (if length (sp_readings s) < 2 then None
      else
        let reg = linearRegression (map sp_T2 (sp_readings s)) (map sp_L (sp_readings s));
            g_exp = slope reg * 4 * pi * pi
        in Some \<lparr>graph_slope = slope reg, calculated_g = g_exp, correlation = r2 reg\<rparr>)"

text \<open>The events of a pendulum session, and the state after a list of them.\<close>

datatype sp_event =
  SpReset real
| SpSetMode mode
| SpEnvironmentChange environment real
| SpAddReading sp_inputs

fun sp_step :: "sp_event \<Rightarrow> sp_state \<Rightarrow> sp_state" where
  "sp_step (SpReset rnd) s = initPendulumExperiment rnd"
| "sp_step (SpSetMode m) s = sp_setMode m s"
| "sp_step (SpEnvironmentChange envVal rnd) s = sp_environmentChange envVal rnd s"
| "sp_step (SpAddReading inp) s = snd (sp_addReading inp s)"

definition sp_session :: "real \<Rightarrow> sp_event list \<Rightarrow> sp_state" where
  "sp_session rnd evs = fold sp_step evs (initPendulumExperiment rnd)"

text \<open>
  The invariant of the stored readings: lengths pairwise distinct and ascending, sequence
  numbers \<open>1..N\<close>.
\<close>

definition sp_invariant :: "sp_reading list \<Rightarrow> bool" where
  "sp_invariant rs \<longleftrightarrow>
     distinct (map sp_L rs) \<and> sorted (map sp_L rs) \<and> map sp_sno rs = [1..<Suc (length rs)]"

section \<open>Experiment 2: flywheel\<close>

definition G_ACCELERATION :: real where
  "G_ACCELERATION = 9.81"

text \<open>A reading \<open>{m, h, t, n2, I}\<close>, fields prefixed \<open>fw_\<close>.\<close>

record fw_reading =
  fw_m :: real
  fw_h :: real
  fw_t :: real
  fw_n2 :: real
  fw_I :: real

text \<open>An entry \<open>{I, Tf}\<close> of \<open>FLYWHEEL_MODELS\<close>.\<close>

record fw_model =
  model_I :: real
  model_Tf :: real

datatype model_key = ModelA | ModelB | ModelUnknown

record fw_state =
  fw_readings :: "fw_reading list"
  fw_mode :: mode
  fw_model :: fw_model

record fw_inputs =
  radiusSlider :: real
  n1Slider :: int
  massSlider :: real
  manualMass :: "real option"
  manualT :: "real option"
  manualN2 :: "real option"
  fw_random_t :: real
  fw_random_n2 :: real

text \<open>
  \<open>fw_setFlywheelModel\<close>: the entry of \<open>FLYWHEEL_MODELS\<close> for the selected key, the
  \<open>'unknown'\<close> entry drawn anew from two calls of \<open>Math.random()\<close>.
\<close>

definition fw_setFlywheelModel :: "model_key \<Rightarrow> real \<Rightarrow> real \<Rightarrow> fw_state \<Rightarrow> fw_state" where
  "fw_setFlywheelModel modelKey rnd1 rnd2 s =
     s\<lparr>fw_model :=
         (case modelKey of
            ModelA \<Rightarrow> \<lparr>model_I = 0.005, model_Tf = 0.002\<rparr>
          | ModelB \<Rightarrow> \<lparr>model_I = 0.015, model_Tf = 0.004\<rparr>
          | ModelUnknown \<Rightarrow> \<lparr>model_I = 0.003 + rnd1 * 0.015, model_Tf = 0.001 + rnd2 * 0.005\<rparr>)\<rparr>"

definition fw_setMode :: "mode \<Rightarrow> fw_state \<Rightarrow> fw_state" where
  "fw_setMode m s = s\<lparr>fw_mode := m\<rparr>"

text \<open>
  \<open>initFlywheelExperiment\<close>: a fresh state in simulation mode, with the model of the key the
  select holds. (Before \<open>fw_setFlywheelModel\<close> runs, \<open>fw_state.model\<close> is not set; the
  record holds the \<open>'unknown'\<close> entry's initial \<open>{I: 0, Tf: 0}\<close> there.)
\<close>

definition initFlywheelExperiment :: "model_key \<Rightarrow> real \<Rightarrow> real \<Rightarrow> fw_state" where
  "initFlywheelExperiment modelKey rnd1 rnd2 =
     fw_setFlywheelModel modelKey rnd1 rnd2
       (fw_setMode Simulation
          \<lparr>fw_readings = [], fw_mode = Simulation, fw_model = \<lparr>model_I = 0, model_Tf = 0\<rparr>\<rparr>)"

text \<open>The \<open>change\<close> handler of the model select.\<close>

definition fw_modelChange :: "model_key \<Rightarrow> real \<Rightarrow> real \<Rightarrow> fw_state \<Rightarrow> fw_state" where
  "fw_modelChange modelKey rnd1 rnd2 s = fw_setFlywheelModel modelKey rnd1 rnd2 (s\<lparr>fw_readings := []\<rparr>)"

text \<open>
  The linear acceleration \<open>a\<close> of the simulation branch. The program reads the constant
  \<open>G_ACCELERATION\<close>; the blocks of \<open>fw_addReading\<close> take gravity as the argument \<open>g\<close>, and
  \<open>fw_addReading\<close> passes \<open>G_ACCELERATION\<close>.
\<close>

definition fw_acceleration :: "real \<Rightarrow> real \<Rightarrow> real \<Rightarrow> real \<Rightarrow> real \<Rightarrow> real" where
  "fw_acceleration g m_kg r_m I Tf = (m_kg * g - Tf / r_m) / (m_kg + I / (r_m * r_m))"

text \<open>
  The simulation branch of \<open>fw_addReading\<close>: mass, fall time and rotations after the fall,
  the last two multiplied by their noise factors.
\<close>

definition fw_simulate ::
  "real \<Rightarrow> fw_model \<Rightarrow> fw_inputs \<Rightarrow> real \<Rightarrow> real \<Rightarrow> notification + real \<times> real \<times> real" where
  "fw_simulate g model inp r_m h =
     (let m_kg = massSlider inp / 1000;
          I = model_I model;
          Tf = model_Tf model;
          a = fw_acceleration g m_kg r_m I Tf
      in
        if a \<le> 0 then Inl MassTooLight
        else
          let t = sqrt (2 * h / a);
              omega = (a * t) / r_m;
              theta_after = (I * omega * omega) / (2 * Tf);
              n2 = theta_after / (2 * pi);
              t' = t * (1 + (fw_random_t inp - 0.5) * 0.03);
              n2' = n2 * (1 + (fw_random_n2 inp - 0.5) * 0.03)
          in Inr (m_kg, t', n2'))"

text \<open>The manual branch: \<open>NaN / 1000\<close> is \<open>NaN\<close>.\<close>

definition fw_manual :: "fw_inputs \<Rightarrow> notification + real \<times> real \<times> real" where
  "fw_manual inp =
     (case (map_option (\<lambda>v. v / 1000) (manualMass inp), manualT inp, manualN2 inp) of
        (Some m_kg, Some t, Some n2) \<Rightarrow>
          if m_kg \<le> 0 \<or> t \<le> 0 \<or> n2 \<le> 0 then Inl EnterValidPositive else Inr (m_kg, t, n2)
      | _ \<Rightarrow> Inl EnterValidPositive)"

text \<open>The inverse estimate of \<open>fw_addReading\<close>: \<open>term1\<close>, \<open>term2\<close> and \<open>I_calc\<close>.\<close>

definition fw_term1 :: "int \<Rightarrow> real \<Rightarrow> real \<Rightarrow> real" where
  "fw_term1 n1 h n2 = 2 * h * (real_of_int n1 + n2)"

definition fw_term2 :: "real \<Rightarrow> real \<Rightarrow> real \<Rightarrow> real \<Rightarrow> real \<Rightarrow> real \<Rightarrow> real" where
  "fw_term2 g m_kg r_m h t n2 = m_kg * r_m * r_m * (g * t * t - 2 * h) * n2"

definition fw_estimate ::
  "real \<Rightarrow> real \<Rightarrow> real \<Rightarrow> int \<Rightarrow> real \<Rightarrow> real \<Rightarrow> real \<Rightarrow> fw_state
     \<Rightarrow> notification option \<times> fw_state" where
  "fw_estimate g m_kg r_m n1 h t n2 s =
     (let term1 = fw_term1 n1 h n2;
          term2 = fw_term2 g m_kg r_m h t n2
      in
        if term1 = 0 then (Some InvalidParameters, s)
        else
          let I_calc = term2 / term1 in
          if I_calc \<le> 0 then (Some NonPhysicalResult, s)
          else
            (None,
             s\<lparr>fw_readings :=
                 fw_readings s @ [\<lparr>fw_m = m_kg, fw_h = h, fw_t = t, fw_n2 = n2, fw_I = I_calc\<rparr>]\<rparr>))"

definition fw_addReading :: "fw_inputs \<Rightarrow> fw_state \<Rightarrow> notification option \<times> fw_state" where
  "fw_addReading inp s =
     (let r_m = radiusSlider inp / 100;
          n1 = n1Slider inp;
          h = 2 * pi * r_m * real_of_int n1
      in
        case (if fw_mode s = Simulation then fw_simulate G_ACCELERATION (fw_model s) inp r_m h
              else fw_manual inp) of
          Inl e \<Rightarrow> (Some e, s)
        | Inr (m_kg, t, n2) \<Rightarrow> fw_estimate G_ACCELERATION m_kg r_m n1 h t n2 s)"

section \<open>Binary64 arithmetic\<close>

text \<open>
  Two claims are decided by rounding and overflow, which the real-valued embedding leaves
  out. For them the functions concerned are given a second time over IEEE-754 binary64
  values, every operation rounded to nearest, ties to even, with overflow to an infinity
  and gradual underflow. A finite value carries the real number it stands for. The sign
  of a zero is not modelled: it shows only in the sign of a quotient by zero.
\<close>

datatype double = NaN | PInf | NInf | Fin real

text \<open>
  \<open>ilog2 ks a\<close> adds up the exponents \<open>k\<close> of the list whose power of two still fits
  under what is left of \<open>a\<close>; over the descending powers of two below it is the
  integer part of the binary logarithm of \<open>a\<close>, for \<open>1 \<le> a < 2 ^ 4096\<close>.
\<close>

fun ilog2 :: "nat list \<Rightarrow> real \<Rightarrow> nat" where
  "ilog2 [] a = 0"
| "ilog2 (k # ks) a = (if 2 ^ k \<le> a then k + ilog2 ks (a / 2 ^ k) else ilog2 ks a)"

definition halvings :: "real \<Rightarrow> nat" where
  "halvings a = ilog2 [2048, 1024, 512, 256, 128, 64, 32, 16, 8, 4, 2, 1] a"

definition neg_log2 :: "real \<Rightarrow> nat \<Rightarrow> int" where
  "neg_log2 a k = (if a * 2 ^ k = 1 then - int k else - int k - 1)"

definition floor_log2 :: "real \<Rightarrow> int" where
  "floor_log2 a = (if 1 \<le> a then int (halvings a) else neg_log2 a (halvings (1 / a)))"

definition pow2 :: "int \<Rightarrow> real" where
  "pow2 q = (if 0 \<le> q then 2 ^ nat q else 1 / 2 ^ nat (- q))"

text \<open>Rounding to the nearest integer, a tie to the even one.\<close>

definition ties_even :: "int \<Rightarrow> real \<Rightarrow> int" where
  "ties_even f d =
     (if d < 1 / 2 then f else if 1 / 2 < d then f + 1 else if even f then f else f + 1)"

definition round_even :: "real \<Rightarrow> int" where
  "round_even y = ties_even \<lfloor>y\<rfloor> (y - of_int \<lfloor>y\<rfloor>)"

text \<open>
  The spacing of the doubles around a positive \<open>a\<close> is \<open>2 ^ quantum a\<close>: 53 significant
  bits, and no finer than the subnormal spacing \<open>2 ^ - 1074\<close>.
\<close>

definition quantum :: "real \<Rightarrow> int" where
  "quantum a = max (floor_log2 a - 52) (- 1074)"

definition round_at :: "real \<Rightarrow> int \<Rightarrow> real" where
  "round_at a q = of_int (round_even (a / pow2 q)) * pow2 q"

definition overflow :: "bool \<Rightarrow> real \<Rightarrow> double" where
  "overflow pos r =
     (if 2 ^ 1024 \<le> r then (if pos then PInf else NInf) else Fin (if pos then r else - r))"

text \<open>The double nearest to a real number: what an operation returns for its exact result,
  and what \<open>parseFloat\<close> returns for a decimal numeral.\<close>

definition double_of :: "real \<Rightarrow> double" where
  "double_of x =
     (if x = 0 then Fin 0 else overflow (0 < x) (round_at \<bar>x\<bar> (quantum \<bar>x\<bar>)))"

fun isNaN :: "double \<Rightarrow> bool" where
  "isNaN NaN = True"
| "isNaN _ = False"

fun is_positive :: "double \<Rightarrow> bool" where
  "is_positive (Fin a) = (0 < a)"
| "is_positive PInf = True"
| "is_positive NInf = False"
| "is_positive NaN = False"

fun sign_inf :: "bool \<Rightarrow> double" where
  "sign_inf True = PInf"
| "sign_inf False = NInf"

fun fneg :: "double \<Rightarrow> double" where
  "fneg (Fin a) = Fin (- a)"
| "fneg PInf = NInf"
| "fneg NInf = PInf"
| "fneg NaN = NaN"

fun fadd :: "double \<Rightarrow> double \<Rightarrow> double" where
  "fadd (Fin a) (Fin b) = double_of (a + b)"
| "fadd NaN _ = NaN"
| "fadd _ NaN = NaN"
| "fadd PInf NInf = NaN"
| "fadd NInf PInf = NaN"
| "fadd PInf _ = PInf"
| "fadd NInf _ = NInf"
| "fadd _ PInf = PInf"
| "fadd _ NInf = NInf"

definition fsub :: "double \<Rightarrow> double \<Rightarrow> double" where
  "fsub a b = fadd a (fneg b)"

fun fmul :: "double \<Rightarrow> double \<Rightarrow> double" where
  "fmul (Fin a) (Fin b) = double_of (a * b)"
| "fmul NaN _ = NaN"
| "fmul _ NaN = NaN"
| "fmul (Fin a) b = (if a = 0 then NaN else sign_inf (0 < a \<longleftrightarrow> is_positive b))"
| "fmul a (Fin b) = (if b = 0 then NaN else sign_inf (is_positive a \<longleftrightarrow> 0 < b))"
| "fmul a b = sign_inf (is_positive a \<longleftrightarrow> is_positive b)"

fun fdiv :: "double \<Rightarrow> double \<Rightarrow> double" where
  "fdiv (Fin a) (Fin b) =
     (if b = 0 then (if a = 0 then NaN else sign_inf (0 < a)) else double_of (a / b))"
| "fdiv NaN _ = NaN"
| "fdiv _ NaN = NaN"
| "fdiv (Fin a) _ = Fin 0"
| "fdiv a (Fin b) = sign_inf (is_positive a \<longleftrightarrow> 0 \<le> b)"
| "fdiv _ _ = NaN"

fun fsqrt :: "double \<Rightarrow> double" where
  "fsqrt (Fin a) = (if a < 0 then NaN else double_of (sqrt a))"
| "fsqrt PInf = PInf"
| "fsqrt NInf = NaN"
| "fsqrt NaN = NaN"

text \<open>\<open><=\<close> and \<open>===\<close>: both are false when an operand is \<open>NaN\<close>.\<close>

fun fle :: "double \<Rightarrow> double \<Rightarrow> bool" where
  "fle NaN _ = False"
| "fle _ NaN = False"
| "fle (Fin a) (Fin b) = (a \<le> b)"
| "fle NInf _ = True"
| "fle _ PInf = True"
| "fle _ _ = False"

definition feq :: "double \<Rightarrow> double \<Rightarrow> bool" where
  "feq a b \<longleftrightarrow> \<not> isNaN a \<and> a = b"

section \<open>\<open>linearRegression\<close> over doubles\<close>

record regression_d =
  slope_d :: double
  intercept_d :: double
  r2_d :: double

record lr_sums_d =
  sum_x_d :: double
  sum_y_d :: double
  sum_xy_d :: double
  sum_xx_d :: double
  sum_yy_d :: double

text \<open>\<open>a[i]\<close>: past the end it is \<open>undefined\<close>, which arithmetic turns into \<open>NaN\<close>.\<close>

definition nth_d :: "double list \<Rightarrow> nat \<Rightarrow> double" where
  "nth_d a i = (if i < length a then a ! i else NaN)"

definition lr_body_d :: "double list \<Rightarrow> double list \<Rightarrow> nat \<Rightarrow> lr_sums_d \<Rightarrow> lr_sums_d" where
  "lr_body_d x y i s =
     \<lparr>sum_x_d = fadd (sum_x_d s) (nth_d x i),
      sum_y_d = fadd (sum_y_d s) (nth_d y i),
      sum_xy_d = fadd (sum_xy_d s) (fmul (nth_d x i) (nth_d y i)),
      sum_xx_d = fadd (sum_xx_d s) (fmul (nth_d x i) (nth_d x i)),
      sum_yy_d = fadd (sum_yy_d s) (fmul (nth_d y i) (nth_d y i))\<rparr>"

definition lr_loop_d :: "nat \<Rightarrow> double list \<Rightarrow> double list \<Rightarrow> lr_sums_d" where
  "lr_loop_d n x y =
     fold (lr_body_d x y) [0..<n]
       \<lparr>sum_x_d = Fin 0, sum_y_d = Fin 0, sum_xy_d = Fin 0, sum_xx_d = Fin 0, sum_yy_d = Fin 0\<rparr>"

text \<open>
  The part of \<open>linearRegression\<close> after the loop, from \<open>n\<close> and the sums: the
  denominator, the numerator that slope and \<open>r2\<close> share, and the three results.
  \<open>Math.pow(v, 2)\<close> is taken as the rounded product \<open>v * v\<close>.
\<close>

definition lr_denominator_d :: "double \<Rightarrow> lr_sums_d \<Rightarrow> double" where
  "lr_denominator_d n s = fsub (fmul n (sum_xx_d s)) (fmul (sum_x_d s) (sum_x_d s))"

definition lr_numerator_d :: "double \<Rightarrow> lr_sums_d \<Rightarrow> double" where
  "lr_numerator_d n s = fsub (fmul n (sum_xy_d s)) (fmul (sum_x_d s) (sum_y_d s))"

definition lr_slope_d :: "double \<Rightarrow> lr_sums_d \<Rightarrow> double" where
  "lr_slope_d n s = fdiv (lr_numerator_d n s) (lr_denominator_d n s)"

definition lr_intercept_d :: "double \<Rightarrow> lr_sums_d \<Rightarrow> double" where
  "lr_intercept_d n s = fdiv (fsub (sum_y_d s) (fmul (lr_slope_d n s) (sum_x_d s))) n"

definition lr_r2_denominator_d :: "double \<Rightarrow> lr_sums_d \<Rightarrow> double" where
  "lr_r2_denominator_d n s =
     fsqrt (fmul (fsub (fmul n (sum_xx_d s)) (fmul (sum_x_d s) (sum_x_d s)))
                 (fsub (fmul n (sum_yy_d s)) (fmul (sum_y_d s) (sum_y_d s))))"

definition lr_r2_d :: "double \<Rightarrow> lr_sums_d \<Rightarrow> double" where
  "lr_r2_d n s =
     (if feq (lr_r2_denominator_d n s) (Fin 0) then Fin 1
      else fmul (fdiv (lr_numerator_d n s) (lr_r2_denominator_d n s))
                (fdiv (lr_numerator_d n s) (lr_r2_denominator_d n s)))"

definition lr_fit_d :: "double \<Rightarrow> lr_sums_d \<Rightarrow> regression_d" where
  "lr_fit_d n s =
     (if feq (lr_denominator_d n s) (Fin 0)
      then \<lparr>slope_d = Fin 0, intercept_d = Fin 0, r2_d = Fin 0\<rparr>
      else \<lparr>slope_d = lr_slope_d n s, intercept_d = lr_intercept_d n s, r2_d = lr_r2_d n s\<rparr>)"

definition linearRegression_d :: "double list \<Rightarrow> double list \<Rightarrow> regression_d" where
  "linearRegression_d x y =
     (let n = length x in
      if n = 0 then \<lparr>slope_d = Fin 0, intercept_d = Fin 0, r2_d = Fin 0\<rparr>
      else lr_fit_d (Fin (real n)) (lr_loop_d n x y))"

section \<open>\<open>fw_addReading\<close> over doubles\<close>

text \<open>\<open>Math.PI\<close> and \<open>G_ACCELERATION\<close> as doubles.\<close>

definition Math_PI :: double where
  "Math_PI = Fin (884279719003555 / 281474976710656)"

definition G_ACCELERATION_d :: double where
  "G_ACCELERATION_d = double_of 9.81"

record fw_reading_d =
  fw_m_d :: double
  fw_h_d :: double
  fw_t_d :: double
  fw_n2_d :: double
  fw_I_d :: double

record fw_model_d =
  model_I_d :: double
  model_Tf_d :: double

record fw_state_d =
  fw_readings_d :: "fw_reading_d list"
  fw_mode_d :: mode
  fw_model_d :: fw_model_d

text \<open>
  The parsed values of the controls and the draws of \<open>Math.random()\<close>, as doubles; a text
  that is no number parses to \<open>NaN\<close>.
\<close>

record fw_inputs_d =
  radiusSlider_d :: double
  n1Slider_d :: double
  massSlider_d :: double
  manualMass_d :: double
  manualT_d :: double
  manualN2_d :: double
  fw_random_t_d :: double
  fw_random_n2_d :: double

definition fw_h_d :: "double \<Rightarrow> double \<Rightarrow> double" where
  "fw_h_d r_m n1 = fmul (fmul (fmul (Fin 2) Math_PI) r_m) n1"

definition fw_acceleration_d :: "double \<Rightarrow> double \<Rightarrow> double \<Rightarrow> double \<Rightarrow> double \<Rightarrow> double" where
  "fw_acceleration_d g m_kg r_m I Tf =
     fdiv (fsub (fmul m_kg g) (fdiv Tf r_m)) (fadd m_kg (fdiv I (fmul r_m r_m)))"

definition fw_noise_d :: "double \<Rightarrow> double" where
  "fw_noise_d rnd = fadd (Fin 1) (fmul (fsub rnd (double_of 0.5)) (double_of 0.03))"

definition fw_simulate_d ::
  "double \<Rightarrow> fw_model_d \<Rightarrow> fw_inputs_d \<Rightarrow> double \<Rightarrow> double
     \<Rightarrow> notification + double \<times> double \<times> double" where
  "fw_simulate_d g model inp r_m h =
     (let m_kg = fdiv (massSlider_d inp) (Fin 1000);
          I = model_I_d model;
          Tf = model_Tf_d model;
          a = fw_acceleration_d g m_kg r_m I Tf
      in
        if fle a (Fin 0) then Inl MassTooLight
        else
          let t = fsqrt (fdiv (fmul (Fin 2) h) a);
              omega = fdiv (fmul a t) r_m;
              theta_after = fdiv (fmul (fmul I omega) omega) (fmul (Fin 2) Tf);
              n2 = fdiv theta_after (fmul (Fin 2) Math_PI);
              t' = fmul t (fw_noise_d (fw_random_t_d inp));
              n2' = fmul n2 (fw_noise_d (fw_random_n2_d inp))
          in Inr (m_kg, t', n2'))"

definition fw_manual_d :: "fw_inputs_d \<Rightarrow> notification + double \<times> double \<times> double" where
  "fw_manual_d inp =
     (let m_kg = fdiv (manualMass_d inp) (Fin 1000);
          t = manualT_d inp;
          n2 = manualN2_d inp
      in
        if isNaN m_kg \<or> isNaN t \<or> isNaN n2
           \<or> fle m_kg (Fin 0) \<or> fle t (Fin 0) \<or> fle n2 (Fin 0)
        then Inl EnterValidPositive
        else Inr (m_kg, t, n2))"

definition fw_term1_d :: "double \<Rightarrow> double \<Rightarrow> double \<Rightarrow> double" where
  "fw_term1_d n1 h n2 = fmul (fmul (Fin 2) h) (fadd n1 n2)"

definition fw_term2_d :: "double \<Rightarrow> double \<Rightarrow> double \<Rightarrow> double \<Rightarrow> double \<Rightarrow> double \<Rightarrow> double" where
  "fw_term2_d g m_kg r_m h t n2 =
     fmul (fmul (fmul (fmul m_kg r_m) r_m) (fsub (fmul (fmul g t) t) (fmul (Fin 2) h))) n2"

definition fw_estimate_d ::
  "double \<Rightarrow> double \<Rightarrow> double \<Rightarrow> double \<Rightarrow> double \<Rightarrow> double \<Rightarrow> double \<Rightarrow> fw_state_d
     \<Rightarrow> notification option \<times> fw_state_d" where
  "fw_estimate_d g m_kg r_m n1 h t n2 s =
     (let term1 = fw_term1_d n1 h n2;
          term2 = fw_term2_d g m_kg r_m h t n2
      in
        if feq term1 (Fin 0) then (Some InvalidParameters, s)
        else
          let I_calc = fdiv term2 term1 in
          if fle I_calc (Fin 0) then (Some NonPhysicalResult, s)
          else
            (None,
             s\<lparr>fw_readings_d :=
                 fw_readings_d s @
                 [\<lparr>fw_m_d = m_kg, fw_h_d = h, fw_t_d = t, fw_n2_d = n2, fw_I_d = I_calc\<rparr>]\<rparr>))"

definition fw_addReading_d :: "fw_inputs_d \<Rightarrow> fw_state_d \<Rightarrow> notification option \<times> fw_state_d" where
  "fw_addReading_d inp s =
     (let r_m = fdiv (radiusSlider_d inp) (Fin 100);
          n1 = n1Slider_d inp;
          h = fw_h_d r_m n1
      in
        case (if fw_mode_d s = Simulation
              then fw_simulate_d G_ACCELERATION_d (fw_model_d s) inp r_m h
              else fw_manual_d inp) of
          Inl e \<Rightarrow> (Some e, s)
        | Inr (m_kg, t, n2) \<Rightarrow> fw_estimate_d G_ACCELERATION_d m_kg r_m n1 h t n2 s)"

section \<open>The loop computes the sums\<close>

lemma lr_loop_Suc: "lr_loop (Suc n) x y = lr_body x y n (lr_loop n x y)"
  by (simp add: lr_loop_def)

lemma lr_loop_sums:
  "lr_loop n x y =
     \<lparr>sum_x = Sx x n, sum_y = Sx y n, sum_xy = Sxy x y n,
      sum_xx = Sxy x x n, sum_yy = Sxy y y n\<rparr>"
proof (induction n)
  case 0
  show ?case by (simp add: lr_loop_def Sx_def Sxy_def)
next
  case (Suc n)
  show ?case
    unfolding lr_loop_Suc Suc.IH
    by (simp add: lr_body_def Sx_def Sxy_def)
qed

section \<open>A Cauchy-Schwarz inequality for finite sums\<close>

lemma cs_quadratic:
  fixes U V W :: real
  assumes q: "\<And>a b. 0 \<le> a\<^sup>2 * U - 2 * a * b * W + b\<^sup>2 * V"
  shows "W\<^sup>2 \<le> U * V"
proof (cases "U = 0")
  case True
  have "W = 0"
  proof (rule ccontr)
    assume "W \<noteq> 0"
    from q [of "(V + 1) / (2 * W)" 1] True \<open>W \<noteq> 0\<close> show False
      by (simp add: field_simps)
  qed
  with True show ?thesis by simp
next
  case False
  from q [of 1 0] have "0 \<le> U" by simp
  with False have "0 < U" by simp
  from q [of W U] have "0 \<le> U * (U * V - W\<^sup>2)"
    by (simp add: algebra_simps power2_eq_square)
  with \<open>0 < U\<close> have "0 \<le> U * V - W\<^sup>2"
    by (simp add: zero_le_mult_iff)
  then show ?thesis by simp
qed

lemma sum_square_expand:
  fixes u v :: "nat \<Rightarrow> real"
  shows "(\<Sum>i<n. (a * u i - b * v i)\<^sup>2) =
         a\<^sup>2 * (\<Sum>i<n. u i * u i) - 2 * a * b * (\<Sum>i<n. u i * v i) + b\<^sup>2 * (\<Sum>i<n. v i * v i)"
  by (induction n) (simp_all add: power2_eq_square algebra_simps)

lemma cauchy_schwarz_sum:
  fixes u v :: "nat \<Rightarrow> real"
  shows "(\<Sum>i<n. u i * v i)\<^sup>2 \<le> (\<Sum>i<n. u i * u i) * (\<Sum>i<n. v i * v i)"
proof (rule cs_quadratic)
  fix a b :: real
  have "0 \<le> (\<Sum>i<n. (a * u i - b * v i)\<^sup>2)"
    by (rule sum_nonneg) simp
  then show "0 \<le> a\<^sup>2 * (\<Sum>i<n. u i * u i) - 2 * a * b * (\<Sum>i<n. u i * v i) + b\<^sup>2 * (\<Sum>i<n. v i * v i)"
    by (simp only: sum_square_expand)
qed

lemma centred_product:
  fixes f g :: "nat \<Rightarrow> real"
  shows "(\<Sum>i<n. (real n * f i - F) * (real n * g i - G)) =
         (real n)\<^sup>2 * (\<Sum>i<n. f i * g i) - real n * G * (\<Sum>i<n. f i)
           - real n * F * (\<Sum>i<n. g i) + real n * F * G"
proof -
  have "(\<Sum>i<n. (real n * f i - F) * (real n * g i - G)) =
        (\<Sum>i<n. (real n)\<^sup>2 * (f i * g i) - real n * G * f i - real n * F * g i + F * G)"
    by (rule sum.cong) (simp_all add: power2_eq_square algebra_simps)
  also have "\<dots> = (real n)\<^sup>2 * (\<Sum>i<n. f i * g i) - real n * G * (\<Sum>i<n. f i)
           - real n * F * (\<Sum>i<n. g i) + real n * F * G"
    by (simp add: sum.distrib sum_subtractf sum_distrib_left)
  finally show ?thesis .
qed

lemma centred_sum:
  fixes f g :: "nat \<Rightarrow> real"
  shows "(\<Sum>i<n. (real n * f i - (\<Sum>i<n. f i)) * (real n * g i - (\<Sum>i<n. g i))) =
         real n * (real n * (\<Sum>i<n. f i * g i) - (\<Sum>i<n. f i) * (\<Sum>i<n. g i))"
  unfolding centred_product by (simp add: power2_eq_square algebra_simps)

lemma correlation_bound:
  fixes f g :: "nat \<Rightarrow> real"
  shows "(real n * (\<Sum>i<n. f i * g i) - (\<Sum>i<n. f i) * (\<Sum>i<n. g i))\<^sup>2
         \<le> (real n * (\<Sum>i<n. f i * f i) - (\<Sum>i<n. f i) * (\<Sum>i<n. f i))
           * (real n * (\<Sum>i<n. g i * g i) - (\<Sum>i<n. g i) * (\<Sum>i<n. g i))"
proof (cases "n = 0")
  case True
  then show ?thesis by simp
next
  case False
  let ?N = "real n * (\<Sum>i<n. f i * g i) - (\<Sum>i<n. f i) * (\<Sum>i<n. g i)"
  let ?Dx = "real n * (\<Sum>i<n. f i * f i) - (\<Sum>i<n. f i) * (\<Sum>i<n. f i)"
  let ?Dy = "real n * (\<Sum>i<n. g i * g i) - (\<Sum>i<n. g i) * (\<Sum>i<n. g i)"
  have "(real n * ?N)\<^sup>2 \<le> (real n * ?Dx) * (real n * ?Dy)"
    using cauchy_schwarz_sum [of "\<lambda>i. real n * f i - (\<Sum>i<n. f i)" "\<lambda>i. real n * g i - (\<Sum>i<n. g i)" n]
    unfolding centred_sum .
  then have "(real n)\<^sup>2 * ?N\<^sup>2 \<le> (real n)\<^sup>2 * (?Dx * ?Dy)"
    by (simp add: power2_eq_square algebra_simps)
  moreover have "0 < (real n)\<^sup>2" using False by simp
  ultimately show ?thesis
    by (simp only: mult_le_cancel_left_pos)
qed

section \<open>\<open>linearRegression\<close> in terms of the sums\<close>

lemma Sx_sum_list: "Sx x (length x) = sum_list x"
  by (simp add: Sx_def sum_list_sum_nth atLeast0LessThan)

lemma Sxy_sum_list:
  assumes "length y = length x"
  shows "Sxy x y (length x) = sum_list (map2 (*) x y)"
proof -
  have "sum_list (map2 (*) x y) = (\<Sum>i = 0..<length x. map2 (*) x y ! i)"
    using assms by (simp add: sum_list_sum_nth)
  also have "\<dots> = (\<Sum>i = 0..<length x. x ! i * y ! i)"
    using assms by (intro sum.cong) simp_all
  finally show ?thesis
    by (simp add: Sxy_def atLeast0LessThan)
qed

lemma linearRegression_sums:
  "linearRegression x y =
     (let n = length x in
      if n = 0 then \<lparr>slope = 0, intercept = 0, r2 = 0\<rparr>
      else if real n * Sxy x x n - Sx x n * Sx x n = 0 then \<lparr>slope = 0, intercept = 0, r2 = 0\<rparr>
      else
        \<lparr>slope = (real n * Sxy x y n - Sx x n * Sx y n) / (real n * Sxy x x n - Sx x n * Sx x n),
         intercept =
           (Sx y n - (real n * Sxy x y n - Sx x n * Sx y n) / (real n * Sxy x x n - Sx x n * Sx x n)
              * Sx x n) / real n,
         r2 =
           (if sqrt ((real n * Sxy x x n - Sx x n * Sx x n) * (real n * Sxy y y n - Sx y n * Sx y n)) = 0
            then 1
            else ((real n * Sxy x y n - Sx x n * Sx y n)
                  / sqrt ((real n * Sxy x x n - Sx x n * Sx x n)
                          * (real n * Sxy y y n - Sx y n * Sx y n)))\<^sup>2)\<rparr>)"
  by (simp add: linearRegression_def lr_loop_sums Let_def)

lemma linearRegression_example:
  "linearRegression [1, 2, 3] [2, 4, 6] = \<lparr>slope = 2, intercept = 0, r2 = 1\<rparr>"
proof -
  have s: "sqrt 144 = 12"
    by (rule real_sqrt_unique) simp_all
  show ?thesis
    by (simp add: linearRegression_sums Sx_def Sxy_def lessThan_Suc eval_nat_numeral s)
qed


lemma linearRegression_gen:
  assumes len: "length y = length x" and n: "n = length x"
    and sx: "sx = sum_list x" and sy: "sy = sum_list y"
    and sxy: "sxy = sum_list (map2 (*) x y)" and sxx: "sxx = sum_list (map2 (*) x x)"
    and syy: "syy = sum_list (map2 (*) y y)"
  shows "lr_loop n x y = \<lparr>sum_x = sx, sum_y = sy, sum_xy = sxy, sum_xx = sxx, sum_yy = syy\<rparr>"
    and "linearRegression x y =
     (if n = 0 then \<lparr>slope = 0, intercept = 0, r2 = 0\<rparr>
      else if real n * sxx - sx * sx = 0 then \<lparr>slope = 0, intercept = 0, r2 = 0\<rparr>
      else
        \<lparr>slope = (real n * sxy - sx * sy) / (real n * sxx - sx * sx),
         intercept = (sy - (real n * sxy - sx * sy) / (real n * sxx - sx * sx) * sx) / real n,
         r2 =
           (if sqrt ((real n * sxx - sx * sx) * (real n * syy - sy * sy)) = 0 then 1
            else ((real n * sxy - sx * sy)
                  / sqrt ((real n * sxx - sx * sx) * (real n * syy - sy * sy)))\<^sup>2)\<rparr>)"
proof -
  have a: "Sx x n = sx" "Sx y n = sy" "Sxy x y n = sxy" "Sxy x x n = sxx" "Sxy y y n = syy"
    using Sx_sum_list [of x] Sx_sum_list [of y] Sxy_sum_list [OF len] Sxy_sum_list [of x x]
      Sxy_sum_list [of y y] len
    by (simp_all add: n sx sy sxy sxx syy)
  show "lr_loop n x y = \<lparr>sum_x = sx, sum_y = sy, sum_xy = sxy, sum_xx = sxx, sum_yy = syy\<rparr>"
    by (simp add: lr_loop_sums a)
  show "linearRegression x y =
     (if n = 0 then \<lparr>slope = 0, intercept = 0, r2 = 0\<rparr>
      else if real n * sxx - sx * sx = 0 then \<lparr>slope = 0, intercept = 0, r2 = 0\<rparr>
      else
        \<lparr>slope = (real n * sxy - sx * sy) / (real n * sxx - sx * sx),
         intercept = (sy - (real n * sxy - sx * sy) / (real n * sxx - sx * sx) * sx) / real n,
         r2 =
           (if sqrt ((real n * sxx - sx * sx) * (real n * syy - sy * sy)) = 0 then 1
            else ((real n * sxy - sx * sy)
                  / sqrt ((real n * sxx - sx * sx) * (real n * syy - sy * sy)))\<^sup>2)\<rparr>)"
    unfolding linearRegression_sums Let_def n [symmetric] a by (rule refl)
qed

section \<open>Claims about \<open>linearRegression\<close>\<close>

text \<open>
  Claim C3. For arrays \<open>x\<close>, \<open>y\<close> of equal length \<open>n \<ge> 1\<close> with
  \<open>n * \<Sum>x\<^sup>2 - (\<Sum>x)\<^sup>2 \<noteq> 0\<close>, the single pass of the loop leaves the five sums
  \<open>\<Sum>x\<close>, \<open>\<Sum>y\<close>, \<open>\<Sum>xy\<close>, \<open>\<Sum>x\<^sup>2\<close>, \<open>\<Sum>y\<^sup>2\<close>, and \<open>linearRegression\<close> returns
  \<open>slope = (n * \<Sum>xy - \<Sum>x * \<Sum>y) / (n * \<Sum>x\<^sup>2 - (\<Sum>x)\<^sup>2)\<close> and
  \<open>intercept = (\<Sum>y - slope * \<Sum>x) / n\<close>; on \<open>{(1,2), (2,4), (3,6)}\<close> it returns slope \<open>2\<close>,
  intercept \<open>0\<close> and \<open>r2 = 1\<close>.
\<close>

theorem linearRegression_slope_intercept:
  assumes "length y = length x" and "n = length x" and "1 \<le> n"
    and "sx = sum_list x" and "sy = sum_list y"
    and "sxy = sum_list (map2 (*) x y)" and "sxx = sum_list (map2 (*) x x)"
    and "syy = sum_list (map2 (*) y y)"
    and "real n * sxx - sx\<^sup>2 \<noteq> 0"
  shows "lr_loop n x y = \<lparr>sum_x = sx, sum_y = sy, sum_xy = sxy, sum_xx = sxx, sum_yy = syy\<rparr>
       \<and> slope (linearRegression x y) = (real n * sxy - sx * sy) / (real n * sxx - sx\<^sup>2)
       \<and> intercept (linearRegression x y) = (sy - slope (linearRegression x y) * sx) / real n
       \<and> linearRegression [1, 2, 3] [2, 4, 6] = \<lparr>slope = 2, intercept = 0, r2 = 1\<rparr>"
  using assms(3,9) linearRegression_gen [OF assms(1,2,4-8)] linearRegression_example
  by (simp add: power2_eq_square)

theorem linearRegression_slope_intercept_witness:
  "length [1, 3 :: real] = length [0, 1 :: real] \<and> (2 :: nat) = length [0, 1 :: real] \<and> (1 :: nat) \<le> 2
   \<and> real 2 * sum_list (map2 (*) [0, 1] [0, 1]) - (sum_list [0, 1])\<^sup>2 \<noteq> 0
   \<and> slope (linearRegression [0, 1] [1, 3]) = 2
   \<and> intercept (linearRegression [0, 1] [1, 3]) = 1"
  using linearRegression_slope_intercept [of "[1, 3]" "[0, 1]" 2 1 4 3 1 10]
  by simp

text \<open>
  Claim C5. For a nondegenerate input (\<open>n \<ge> 1\<close>, \<open>dx = n * \<Sum>x\<^sup>2 - (\<Sum>x)\<^sup>2 \<noteq> 0\<close>), with
  \<open>dy = n * \<Sum>y\<^sup>2 - (\<Sum>y)\<^sup>2\<close>: \<open>linearRegression\<close> returns \<open>r2 = 1\<close> when
  \<open>sqrt (dx * dy) = 0\<close>, which is the case exactly when \<open>dy = 0\<close> (\<open>y\<close> has zero variance),
  and \<open>r2 = ((n * \<Sum>xy - \<Sum>x * \<Sum>y) / sqrt (dx * dy))\<^sup>2\<close> otherwise.
\<close>

theorem linearRegression_r2:
  assumes "length y = length x" and "n = length x" and "1 \<le> n"
    and "sx = sum_list x" and "sy = sum_list y"
    and "sxy = sum_list (map2 (*) x y)" and "sxx = sum_list (map2 (*) x x)"
    and "syy = sum_list (map2 (*) y y)"
    and "dx = real n * sxx - sx\<^sup>2" and "dy = real n * syy - sy\<^sup>2"
    and "dx \<noteq> 0"
  shows "r2 (linearRegression x y) =
           (if sqrt (dx * dy) = 0 then 1 else ((real n * sxy - sx * sy) / sqrt (dx * dy))\<^sup>2)
       \<and> (sqrt (dx * dy) = 0 \<longleftrightarrow> dy = 0)"
  using assms(3,9-11) linearRegression_gen(2) [OF assms(1,2,4-8)]
  by (simp add: power2_eq_square)

theorem linearRegression_r2_witness:
  "length [1, 1 :: real] = length [0, 1 :: real] \<and> (2 :: nat) = length [0, 1 :: real] \<and> (1 :: nat) \<le> 2
   \<and> real 2 * sum_list (map2 (*) [0, 1] [0, 1]) - (sum_list [0, 1])\<^sup>2 \<noteq> 0
   \<and> r2 (linearRegression [0, 1] [1, 1]) = 1
   \<and> r2 (linearRegression [0, 1, 2] [0, 1, 0]) = 0"
proof -
  have a: "r2 (linearRegression [0, 1] [1, 1]) =
           (if sqrt (1 * 0) = 0 then 1 else ((real 2 * 1 - 1 * 2) / sqrt (1 * 0))\<^sup>2)
       \<and> (sqrt (1 * 0) = 0 \<longleftrightarrow> (0 :: real) = 0)"
    by (rule linearRegression_r2 [where sxx = 1 and syy = 2]) simp_all
  have b: "r2 (linearRegression [0, 1, 2] [0, 1, 0]) =
           (if sqrt (6 * 2) = 0 then 1 else ((real 3 * 1 - 3 * 1) / sqrt (6 * 2))\<^sup>2)
       \<and> (sqrt (6 * 2) = 0 \<longleftrightarrow> (2 :: real) = 0)"
    by (rule linearRegression_r2 [where sxx = 5 and syy = 1]) simp_all
  from a b show ?thesis by simp
qed

text \<open>
  Claim C6. For arrays of equal length, the \<open>r2\<close> that \<open>linearRegression\<close> returns lies in
  \<open>[0, 1]\<close> (over exact arithmetic): the fallbacks are \<open>0\<close> and \<open>1\<close>, and the squared
  correlation is at most \<open>1\<close> by the Cauchy-Schwarz inequality.
\<close>

theorem linearRegression_r2_range:
  assumes "length y = length x"
  shows "0 \<le> r2 (linearRegression x y) \<and> r2 (linearRegression x y) \<le> 1"
proof -
  define n where "n = length x"
  define N where "N = real n * Sxy x y n - Sx x n * Sx y n"
  define D where "D = (real n * Sxy x x n - Sx x n * Sx x n) * (real n * Sxy y y n - Sx y n * Sx y n)"
  have cs: "N\<^sup>2 \<le> D"
    unfolding N_def D_def Sx_def Sxy_def by (rule correlation_bound)
  have bound: "0 \<le> (N / sqrt D)\<^sup>2 \<and> (N / sqrt D)\<^sup>2 \<le> 1" if nz: "sqrt D \<noteq> 0"
  proof -
    have "0 \<le> D"
      using cs zero_le_power2 [of N] by linarith
    moreover from nz have "D \<noteq> 0" by auto
    ultimately have pos: "0 < D" by simp
    have "(N / sqrt D)\<^sup>2 = N\<^sup>2 / D"
      using pos by (simp add: power_divide)
    also have "\<dots> \<le> 1"
      using pos cs by simp
    finally show ?thesis by simp
  qed
  have "r2 (linearRegression x y) = 0 \<or> r2 (linearRegression x y) = 1
        \<or> (sqrt D \<noteq> 0 \<and> r2 (linearRegression x y) = (N / sqrt D)\<^sup>2)"
    unfolding linearRegression_sums Let_def n_def [symmetric] N_def [symmetric] D_def [symmetric]
    by simp
  with bound show ?thesis by auto
qed

theorem linearRegression_r2_range_witness:
  "length [1, 2, 2 :: real] = length [0, 1, 2 :: real]
   \<and> 0 \<le> r2 (linearRegression [0, 1, 2] [1, 2, 2])
   \<and> r2 (linearRegression [0, 1, 2] [1, 2, 2]) \<le> 1"
  using linearRegression_r2_range [of "[1, 2, 2]" "[0, 1, 2]"]
  by simp

section \<open>Flywheel: the blocks of \<open>fw_addReading\<close>\<close>

lemma fw_estimate_cases:
  "fw_estimate g m_kg r_m n1 h t n2 s =
     (if fw_term1 n1 h n2 = 0 then (Some InvalidParameters, s)
      else if fw_term2 g m_kg r_m h t n2 / fw_term1 n1 h n2 \<le> 0 then (Some NonPhysicalResult, s)
      else (None,
            s\<lparr>fw_readings := fw_readings s @
                [\<lparr>fw_m = m_kg, fw_h = h, fw_t = t, fw_n2 = n2,
                  fw_I = fw_term2 g m_kg r_m h t n2 / fw_term1 n1 h n2\<rparr>]\<rparr>))"
  by (simp add: fw_estimate_def Let_def)

lemma fw_addReading_manual:
  assumes "fw_mode s = Manual" and "manualMass inp = Some mg" and "manualT inp = Some t"
    and "manualN2 inp = Some n2" and "0 < mg" and "0 < t" and "0 < n2"
  shows "fw_addReading inp s =
         fw_estimate G_ACCELERATION (mg / 1000) (radiusSlider inp / 100) (n1Slider inp)
           (2 * pi * (radiusSlider inp / 100) * real_of_int (n1Slider inp)) t n2 s"
  using assms by (simp add: fw_addReading_def fw_manual_def Let_def)

lemma fw_inverse_of_forward:
  fixes m r I Tf g n1r a h t omega n2 :: real
  assumes pos: "0 < m" "0 < r" "0 < n1r" "0 < I" "0 < Tf" "0 < g"
    and a: "a = (m * g - Tf / r) / (m + I / (r * r))" and apos: "0 < a"
    and h: "h = 2 * pi * r * n1r"
    and t: "t = sqrt (2 * h / a)"
    and omega: "omega = (a * t) / r"
    and n2: "n2 = (I * omega * omega) / (2 * Tf) / (2 * pi)"
  shows "0 < t" and "0 < n2" and "0 < 2 * h * (n1r + n2)"
    and "m * r * r * (g * t * t - 2 * h) * n2 / (2 * h * (n1r + n2)) = I"
proof -
  have hpos: "0 < h" using pos by (simp add: h)
  then show tpos: "0 < t" using apos by (simp add: t)
  have tt: "t * t = 2 * h / a"
    using hpos apos by (simp add: t)
  have den: "0 < m + I / (r * r)" using pos by (simp add: add_pos_pos)
  have "a * (m + I / (r * r)) = m * g - Tf / r"
    using den by (simp add: a)
  then have "r * (a * I + Tf * r + a * m * r * r) = r * (m * g * r * r)"
    using pos by (simp add: field_simps)
  then have "a * I + Tf * r + a * m * r * r = m * g * r * r"
    using pos by (simp only: mult_cancel_left) simp
  then have key: "m * r * r * (g - a) = a * I + Tf * r"
    by (simp add: algebra_simps)
  have "omega * omega = a * a * (t * t) / (r * r)"
    by (simp add: omega)
  then have oo: "omega * omega = 2 * h * a / (r * r)"
    using apos by (simp add: tt)
  have "n2 = I * (omega * omega) / (2 * Tf) / (2 * pi)"
    by (simp add: n2 mult.assoc)
  then have n2eq: "n2 = I * n1r * a / (r * Tf)"
    using pos by (simp add: oo h field_simps)
  then show n2pos: "0 < n2" using pos apos by simp
  show "0 < 2 * h * (n1r + n2)" using hpos n2pos pos by simp
  define S where "S = a * I + Tf * r"
  have s: "0 < S" using pos apos by (simp add: S_def add_pos_pos)
  have sum: "n1r + n2 = n1r * S / (r * Tf)"
    using pos by (simp add: n2eq S_def field_simps)
  have "g * t * t - 2 * h = 2 * h * (g - a) / a"
    using apos by (simp add: mult.assoc tt field_simps)
  then have num: "m * r * r * (g * t * t - 2 * h) = 2 * h * S / a"
    using key [symmetric] by (simp add: S_def)
  have "m * r * r * (g * t * t - 2 * h) * n2 / (2 * h * (n1r + n2)) =
        (2 * h * S / a) * (I * n1r * a / (r * Tf)) / (2 * h * (n1r * S / (r * Tf)))"
    unfolding num sum unfolding n2eq by (rule refl)
  also have "\<dots> = I"
    using pos apos hpos s by (simp add: field_simps)
  finally show "m * r * r * (g * t * t - 2 * h) * n2 / (2 * h * (n1r + n2)) = I" .
qed

lemma fw_simulate_cases:
  "fw_simulate g model inp r_m h =
     (if fw_acceleration g (massSlider inp / 1000) r_m (model_I model) (model_Tf model) \<le> 0
      then Inl MassTooLight
      else Inr (massSlider inp / 1000,
                sqrt (2 * h / fw_acceleration g (massSlider inp / 1000) r_m (model_I model) (model_Tf model))
                  * (1 + (fw_random_t inp - 0.5) * 0.03),
                (model_I model
                   * (fw_acceleration g (massSlider inp / 1000) r_m (model_I model) (model_Tf model)
                        * sqrt (2 * h / fw_acceleration g (massSlider inp / 1000) r_m (model_I model) (model_Tf model))
                        / r_m)
                   * (fw_acceleration g (massSlider inp / 1000) r_m (model_I model) (model_Tf model)
                        * sqrt (2 * h / fw_acceleration g (massSlider inp / 1000) r_m (model_I model) (model_Tf model))
                        / r_m))
                  / (2 * model_Tf model) / (2 * pi)
                  * (1 + (fw_random_n2 inp - 0.5) * 0.03)))"
  by (simp add: fw_simulate_def Let_def)

lemma fw_estimate_not_too_light: "fst (fw_estimate g m r n1 h t n2 s) \<noteq> Some MassTooLight"
  by (simp add: fw_estimate_cases)

lemma fw_addReading_simulation:
  assumes "fw_mode s = Simulation"
  shows "fw_addReading inp s =
     (case fw_simulate G_ACCELERATION (fw_model s) inp (radiusSlider inp / 100)
             (2 * pi * (radiusSlider inp / 100) * real_of_int (n1Slider inp)) of
        Inl e \<Rightarrow> (Some e, s)
      | Inr (m_kg, t, n2) \<Rightarrow>
          fw_estimate G_ACCELERATION m_kg (radiusSlider inp / 100) (n1Slider inp)
            (2 * pi * (radiusSlider inp / 100) * real_of_int (n1Slider inp)) t n2 s)"
  using assms by (simp add: fw_addReading_def Let_def)

lemma fw_noiseless_blocks:
  assumes "0 < m" and "0 < r" and "0 < n1" and "0 < model_I model" and "0 < model_Tf model"
    and "0 < g"
    and "massSlider inp = 1000 * m"
    and "fw_random_t inp = 0.5" and "fw_random_n2 inp = 0.5"
    and "0 < fw_acceleration g m r (model_I model) (model_Tf model)"
    and "h = 2 * pi * r * real_of_int n1"
  shows "\<exists>t n2. fw_simulate g model inp r h = Inr (m, t, n2)
           \<and> fw_estimate g m r n1 h t n2 s =
                (None, s\<lparr>fw_readings := fw_readings s @
                   [\<lparr>fw_m = m, fw_h = h, fw_t = t, fw_n2 = n2, fw_I = model_I model\<rparr>]\<rparr>)"
proof -
  define a where "a = fw_acceleration g m r (model_I model) (model_Tf model)"
  define t where "t = sqrt (2 * h / a)"
  define omega where "omega = (a * t) / r"
  define n2 where "n2 = (model_I model * omega * omega) / (2 * model_Tf model) / (2 * pi)"
  have apos: "0 < a" using assms(10) by (simp add: a_def)
  have n1pos: "0 < real_of_int n1" using assms(3) by simp
  have sim: "fw_simulate g model inp r h = Inr (m, t, n2)"
    unfolding fw_simulate_cases using apos
    by (simp add: assms(7-9) a_def [symmetric] t_def [symmetric] omega_def n2_def)
  note inv = fw_inverse_of_forward [OF assms(1,2) n1pos assms(4,5,6) _ apos assms(11) t_def omega_def n2_def]
  have adef: "a = (m * g - model_Tf model / r) / (m + model_I model / (r * r))"
    by (simp add: a_def fw_acceleration_def)
  have t1: "fw_term1 n1 h n2 \<noteq> 0"
    unfolding fw_term1_def using inv(3) [OF adef] by (rule less_imp_neq [THEN not_sym])
  have I: "fw_term2 g m r h t n2 / fw_term1 n1 h n2 = model_I model"
    using inv(4) [OF adef] by (simp add: fw_term1_def fw_term2_def)
  have "fw_estimate g m r n1 h t n2 s =
       (None, s\<lparr>fw_readings := fw_readings s @
          [\<lparr>fw_m = m, fw_h = h, fw_t = t, fw_n2 = n2, fw_I = model_I model\<rparr>]\<rparr>)"
    unfolding fw_estimate_cases I using t1 assms(4) by simp
  with sim have "fw_simulate g model inp r h = Inr (m, t, n2)
           \<and> fw_estimate g m r n1 h t n2 s =
                (None, s\<lparr>fw_readings := fw_readings s @
                   [\<lparr>fw_m = m, fw_h = h, fw_t = t, fw_n2 = n2, fw_I = model_I model\<rparr>]\<rparr>)"
    by (rule conjI)
  then show ?thesis by (intro exI)
qed

lemma fw_addReading_noiseless:
  assumes "0 < m" and "0 < r" and "0 < n1" and "0 < model_I (fw_model s)"
    and "0 < model_Tf (fw_model s)"
    and "massSlider inp = 1000 * m" and "radiusSlider inp = 100 * r" and "n1Slider inp = n1"
    and "fw_random_t inp = 0.5" and "fw_random_n2 inp = 0.5"
    and "0 < fw_acceleration G_ACCELERATION m r (model_I (fw_model s)) (model_Tf (fw_model s))"
    and "h = 2 * pi * r * real_of_int n1"
    and "fw_mode s = Simulation"
  shows "\<exists>t n2. fw_addReading inp s =
           (None, s\<lparr>fw_readings := fw_readings s @
              [\<lparr>fw_m = m, fw_h = h, fw_t = t, fw_n2 = n2, fw_I = model_I (fw_model s)\<rparr>]\<rparr>)"
proof -
  have g: "0 < G_ACCELERATION" by (simp add: G_ACCELERATION_def)
  from fw_noiseless_blocks [OF assms(1-5) g assms(6,9-12), of s]
  obtain t n2 where sim: "fw_simulate G_ACCELERATION (fw_model s) inp r h = Inr (m, t, n2)"
    and est: "fw_estimate G_ACCELERATION m r n1 h t n2 s =
       (None, s\<lparr>fw_readings := fw_readings s @
          [\<lparr>fw_m = m, fw_h = h, fw_t = t, fw_n2 = n2, fw_I = model_I (fw_model s)\<rparr>]\<rparr>)"
    by blast
  have "fw_addReading inp s = fw_estimate G_ACCELERATION m r n1 h t n2 s"
    using sim by (simp add: fw_addReading_simulation [OF assms(13)] assms(7,8,12))
  with est have "fw_addReading inp s =
       (None, s\<lparr>fw_readings := fw_readings s @
          [\<lparr>fw_m = m, fw_h = h, fw_t = t, fw_n2 = n2, fw_I = model_I (fw_model s)\<rparr>]\<rparr>)"
    by simp
  then show ?thesis by (intro exI)
qed

section \<open>Claims about the flywheel\<close>

text \<open>
  Claim C2. Flywheel round trip: for mass \<open>m > 0\<close>, axle radius \<open>r > 0\<close>, windings
  \<open>n1 > 0\<close>, inertia \<open>I > 0\<close>, friction torque \<open>Tf > 0\<close> and gravity \<open>g > 0\<close> with a
  positive fall acceleration, the simulation without noise (both draws \<open>0.5\<close>) followed by the
  inverse estimate with the same mass, radius, windings and gravity records the original
  \<open>I\<close>, exactly; so does \<open>fw_addReading\<close> in simulation mode, where gravity is
  \<open>G_ACCELERATION\<close>. The instance after the theorem is the case \<open>m = 0.05\<close>,
  \<open>r = 0.05\<close>, \<open>n1 = 5\<close>, \<open>I = 0.01\<close>, \<open>Tf = 0.003\<close>, \<open>g = 9.81\<close>.
\<close>

theorem fw_round_trip:
  assumes "0 < m" and "0 < r" and "0 < n1" and "0 < model_I model" and "0 < model_Tf model"
    and "0 < g"
    and "massSlider inp = 1000 * m"
    and "fw_random_t inp = 0.5" and "fw_random_n2 inp = 0.5"
    and "0 < fw_acceleration g m r (model_I model) (model_Tf model)"
    and "h = 2 * pi * r * real_of_int n1"
  shows "(case fw_simulate g model inp r h of
            Inl e \<Rightarrow> False
          | Inr (m', t, n2) \<Rightarrow>
              m' = m \<and>
              fw_estimate g m r n1 h t n2 s =
                (None, s\<lparr>fw_readings := fw_readings s @
                   [\<lparr>fw_m = m, fw_h = h, fw_t = t, fw_n2 = n2, fw_I = model_I model\<rparr>]\<rparr>))
       \<and> (g = G_ACCELERATION \<and> fw_mode s = Simulation \<and> fw_model s = model
            \<and> radiusSlider inp = 100 * r \<and> n1Slider inp = n1
          \<longrightarrow> (\<exists>t n2. fw_addReading inp s =
                (None, s\<lparr>fw_readings := fw_readings s @
                   [\<lparr>fw_m = m, fw_h = h, fw_t = t, fw_n2 = n2, fw_I = model_I model\<rparr>]\<rparr>)))"
proof -
  from fw_noiseless_blocks [OF assms, of s]
  obtain t n2 where "fw_simulate g model inp r h = Inr (m, t, n2)"
    and "fw_estimate g m r n1 h t n2 s =
       (None, s\<lparr>fw_readings := fw_readings s @
          [\<lparr>fw_m = m, fw_h = h, fw_t = t, fw_n2 = n2, fw_I = model_I model\<rparr>]\<rparr>)"
    by blast
  then have blocks: "case fw_simulate g model inp r h of
            Inl e \<Rightarrow> False
          | Inr (m', t, n2) \<Rightarrow>
              m' = m \<and>
              fw_estimate g m r n1 h t n2 s =
                (None, s\<lparr>fw_readings := fw_readings s @
                   [\<lparr>fw_m = m, fw_h = h, fw_t = t, fw_n2 = n2, fw_I = model_I model\<rparr>]\<rparr>)"
    by simp
  have "\<exists>t n2. fw_addReading inp s =
       (None, s\<lparr>fw_readings := fw_readings s @
          [\<lparr>fw_m = m, fw_h = h, fw_t = t, fw_n2 = n2, fw_I = model_I model\<rparr>]\<rparr>)"
    if "g = G_ACCELERATION" "fw_mode s = Simulation" "fw_model s = model"
      "radiusSlider inp = 100 * r" "n1Slider inp = n1"
    using fw_addReading_noiseless [of m r n1 s inp h] assms that by simp
  with blocks show ?thesis by simp
qed

theorem fw_round_trip_witness:
  "0 < fw_acceleration G_ACCELERATION 0.05 0.05 0.01 0.003
   \<and> (\<exists>t n2.
        fw_addReading
          \<lparr>radiusSlider = 5, n1Slider = 5, massSlider = 50, manualMass = None, manualT = None,
            manualN2 = None, fw_random_t = 0.5, fw_random_n2 = 0.5\<rparr>
          \<lparr>fw_readings = [], fw_mode = Simulation,
            fw_model = \<lparr>model_I = 0.01, model_Tf = 0.003\<rparr>\<rparr>
        = (None,
           \<lparr>fw_readings = [\<lparr>fw_m = 0.05, fw_h = 2 * pi * 0.05 * 5, fw_t = t, fw_n2 = n2, fw_I = 0.01\<rparr>],
             fw_mode = Simulation, fw_model = \<lparr>model_I = 0.01, model_Tf = 0.003\<rparr>\<rparr>))"
proof -
  have a: "0 < fw_acceleration G_ACCELERATION 0.05 0.05 0.01 0.003"
    by (simp add: fw_acceleration_def G_ACCELERATION_def)
  have "\<exists>t n2.
        fw_addReading
          \<lparr>radiusSlider = 5, n1Slider = 5, massSlider = 50, manualMass = None, manualT = None,
            manualN2 = None, fw_random_t = 0.5, fw_random_n2 = 0.5\<rparr>
          \<lparr>fw_readings = [], fw_mode = Simulation,
            fw_model = \<lparr>model_I = 0.01, model_Tf = 0.003\<rparr>\<rparr>
        = (None,
           \<lparr>fw_readings = [], fw_mode = Simulation,
            fw_model = \<lparr>model_I = 0.01, model_Tf = 0.003\<rparr>\<rparr>
           \<lparr>fw_readings :=
              fw_readings \<lparr>fw_readings = [], fw_mode = Simulation,
                fw_model = \<lparr>model_I = 0.01, model_Tf = 0.003\<rparr>\<rparr>
              @ [\<lparr>fw_m = 0.05, fw_h = 2 * pi * 0.05 * 5, fw_t = t, fw_n2 = n2,
                   fw_I = model_I \<lparr>model_I = 0.01, model_Tf = 0.003\<rparr>\<rparr>]\<rparr>)"
    using fw_round_trip [where m = "0.05" and r = "0.05" and ?n1.0 = 5 and g = G_ACCELERATION
        and model = "\<lparr>model_I = 0.01, model_Tf = 0.003\<rparr>"
        and h = "2 * pi * 0.05 * 5"
        and inp = "\<lparr>radiusSlider = 5, n1Slider = 5, massSlider = 50, manualMass = None,
            manualT = None, manualN2 = None, fw_random_t = 0.5, fw_random_n2 = 0.5\<rparr>"
        and s = "\<lparr>fw_readings = [], fw_mode = Simulation,
            fw_model = \<lparr>model_I = 0.01, model_Tf = 0.003\<rparr>\<rparr>", THEN conjunct2] a
    by (simp add: G_ACCELERATION_def)
  then have "\<exists>t n2.
        fw_addReading
          \<lparr>radiusSlider = 5, n1Slider = 5, massSlider = 50, manualMass = None, manualT = None,
            manualN2 = None, fw_random_t = 0.5, fw_random_n2 = 0.5\<rparr>
          \<lparr>fw_readings = [], fw_mode = Simulation,
            fw_model = \<lparr>model_I = 0.01, model_Tf = 0.003\<rparr>\<rparr>
        = (None,
           \<lparr>fw_readings = [\<lparr>fw_m = 0.05, fw_h = 2 * pi * 0.05 * 5, fw_t = t, fw_n2 = n2, fw_I = 0.01\<rparr>],
             fw_mode = Simulation, fw_model = \<lparr>model_I = 0.01, model_Tf = 0.003\<rparr>\<rparr>)"
    by simp
  with a show ?thesis by (rule conjI)
qed

text \<open>
  Claim C7. The inverse estimate of the flywheel shows "Invalid parameters." exactly when
  its denominator \<open>2h * (n1 + n2)\<close> is \<open>0\<close>; otherwise it computes
  \<open>I = m * r\<^sup>2 * (g * t\<^sup>2 - 2h) * n2 / (2h * (n1 + n2))\<close> and shows "Non-physical result."
  exactly when \<open>I \<le> 0\<close>; on either failure the state, and so the list of readings, is
  unchanged; on success a reading with exactly that \<open>I\<close> is appended. \<open>fw_addReading\<close> in
  manual mode with valid positive entries is this estimate.
\<close>

theorem fw_estimate_outcomes:
  assumes "I_calc = m * r\<^sup>2 * (g * t\<^sup>2 - 2 * h) * n2 / (2 * h * (real_of_int n1 + n2))"
    and "res = fw_estimate g m r n1 h t n2 s"
  shows "(fst res = Some InvalidParameters \<longleftrightarrow> 2 * h * (real_of_int n1 + n2) = 0)
       \<and> (fst res = Some NonPhysicalResult \<longleftrightarrow> 2 * h * (real_of_int n1 + n2) \<noteq> 0 \<and> I_calc \<le> 0)
       \<and> (fst res \<noteq> None \<longrightarrow> snd res = s)
       \<and> (fst res = None \<longleftrightarrow> 2 * h * (real_of_int n1 + n2) \<noteq> 0 \<and> 0 < I_calc)
       \<and> (fst res = None \<longrightarrow>
            snd res = s\<lparr>fw_readings := fw_readings s @
                         [\<lparr>fw_m = m, fw_h = h, fw_t = t, fw_n2 = n2, fw_I = I_calc\<rparr>]\<rparr>)
       \<and> (fw_mode s = Manual \<and> manualMass inp = Some (1000 * m) \<and> manualT inp = Some t
            \<and> manualN2 inp = Some n2 \<and> 0 < m \<and> 0 < t \<and> 0 < n2
            \<and> radiusSlider inp = 100 * r \<and> n1Slider inp = n1 \<and> h = 2 * pi * r * real_of_int n1
            \<and> g = G_ACCELERATION
          \<longrightarrow> fw_addReading inp s = res)"
proof -
  have I: "fw_term2 g m r h t n2 / (2 * h * (real_of_int n1 + n2)) = I_calc"
    by (simp add: assms(1) fw_term2_def power2_eq_square mult.assoc)
  have t1: "fw_term1 n1 h n2 = 2 * h * (real_of_int n1 + n2)"
    by (simp add: fw_term1_def)
  have manual: "fw_addReading inp s = res"
    if "fw_mode s = Manual" "manualMass inp = Some (1000 * m)" "manualT inp = Some t"
      "manualN2 inp = Some n2" "0 < m" "0 < t" "0 < n2" "radiusSlider inp = 100 * r"
      "n1Slider inp = n1" "h = 2 * pi * r * real_of_int n1" "g = G_ACCELERATION"
    using fw_addReading_manual [of s inp "1000 * m" t n2] that
    by (simp add: assms(2))
  have res: "res =
     (if 2 * h * (real_of_int n1 + n2) = 0 then (Some InvalidParameters, s)
      else if I_calc \<le> 0 then (Some NonPhysicalResult, s)
      else (None, s\<lparr>fw_readings := fw_readings s @
                [\<lparr>fw_m = m, fw_h = h, fw_t = t, fw_n2 = n2, fw_I = I_calc\<rparr>]\<rparr>))"
    unfolding assms(2) fw_estimate_cases t1 I by (rule refl)
  show ?thesis
    using manual by (simp add: res)
qed

theorem fw_estimate_outcomes_witness:
  "fw_addReading
     \<lparr>radiusSlider = 5, n1Slider = 5, massSlider = 50, manualMass = Some 50, manualT = Some 10,
       manualN2 = Some 5, fw_random_t = 0, fw_random_n2 = 0\<rparr>
     \<lparr>fw_readings = [], fw_mode = Manual, fw_model = \<lparr>model_I = 0.005, model_Tf = 0.002\<rparr>\<rparr>
   = (None,
      \<lparr>fw_readings =
         [\<lparr>fw_m = 0.05, fw_h = 2 * pi * 0.05 * 5, fw_t = 10, fw_n2 = 5,
           fw_I = 0.05 * 0.05\<^sup>2 * (G_ACCELERATION * 10\<^sup>2 - 2 * (2 * pi * 0.05 * 5)) * 5
                    / (2 * (2 * pi * 0.05 * 5) * (real_of_int 5 + 5))\<rparr>],
        fw_mode = Manual, fw_model = \<lparr>model_I = 0.005, model_Tf = 0.002\<rparr>\<rparr>)
   \<and> fw_addReading
     \<lparr>radiusSlider = 5, n1Slider = 5, massSlider = 50, manualMass = Some 50, manualT = Some 0.1,
       manualN2 = Some 5, fw_random_t = 0, fw_random_n2 = 0\<rparr>
     \<lparr>fw_readings = [], fw_mode = Manual, fw_model = \<lparr>model_I = 0.005, model_Tf = 0.002\<rparr>\<rparr>
   = (Some NonPhysicalResult,
      \<lparr>fw_readings = [], fw_mode = Manual, fw_model = \<lparr>model_I = 0.005, model_Tf = 0.002\<rparr>\<rparr>)
   \<and> fw_addReading
     \<lparr>radiusSlider = 5, n1Slider = 0, massSlider = 50, manualMass = Some 50, manualT = Some 10,
       manualN2 = Some 5, fw_random_t = 0, fw_random_n2 = 0\<rparr>
     \<lparr>fw_readings = [], fw_mode = Manual, fw_model = \<lparr>model_I = 0.005, model_Tf = 0.002\<rparr>\<rparr>
   = (Some InvalidParameters,
      \<lparr>fw_readings = [], fw_mode = Manual, fw_model = \<lparr>model_I = 0.005, model_Tf = 0.002\<rparr>\<rparr>)"
proof -
  let ?s = "\<lparr>fw_readings = [], fw_mode = Manual, fw_model = \<lparr>model_I = 0.005, model_Tf = 0.002\<rparr>\<rparr>"
  let ?A = "\<lparr>radiusSlider = 5, n1Slider = 5, massSlider = 50, manualMass = Some 50, manualT = Some 10,
       manualN2 = Some 5, fw_random_t = 0, fw_random_n2 = 0\<rparr>"
  let ?B = "\<lparr>radiusSlider = 5, n1Slider = 5, massSlider = 50, manualMass = Some 50, manualT = Some 0.1,
       manualN2 = Some 5, fw_random_t = 0, fw_random_n2 = 0\<rparr>"
  let ?C = "\<lparr>radiusSlider = 5, n1Slider = 0, massSlider = 50, manualMass = Some 50, manualT = Some 10,
       manualN2 = Some 5, fw_random_t = 0, fw_random_n2 = 0\<rparr>"
  have p: "0 < pi" "pi < 4" "2 \<le> pi"
    using pi_gt_zero pi_less_4 pi_ge_two by simp_all
  note A = fw_estimate_outcomes [OF refl refl, where m = "0.05" and r = "0.05" and g = G_ACCELERATION
      and t = 10 and h = "2 * pi * 0.05 * 5" and ?n2.0 = 5 and ?n1.0 = 5 and s = ?s and inp = ?A]
  note B = fw_estimate_outcomes [OF refl refl, where m = "0.05" and r = "0.05" and g = G_ACCELERATION
      and t = "0.1" and h = "2 * pi * 0.05 * 5" and ?n2.0 = 5 and ?n1.0 = 5 and s = ?s and inp = ?B]
  note C = fw_estimate_outcomes [OF refl refl, where m = "0.05" and r = "0.05" and g = G_ACCELERATION
      and t = 10 and h = "2 * pi * 0.05 * 0" and ?n2.0 = 5 and ?n1.0 = 0 and s = ?s and inp = ?C]
  have a: "fw_addReading ?A ?s = (None,
      \<lparr>fw_readings =
         [\<lparr>fw_m = 0.05, fw_h = 2 * pi * 0.05 * 5, fw_t = 10, fw_n2 = 5,
           fw_I = 0.05 * 0.05\<^sup>2 * (G_ACCELERATION * 10\<^sup>2 - 2 * (2 * pi * 0.05 * 5)) * 5
                    / (2 * (2 * pi * 0.05 * 5) * (real_of_int 5 + 5))\<rparr>],
        fw_mode = Manual, fw_model = \<lparr>model_I = 0.005, model_Tf = 0.002\<rparr>\<rparr>)"
  proof -
    have "2 * (2 * pi * 0.05 * 5) * (real_of_int 5 + 5) \<noteq> 0
        \<and> 0 < 0.05 * 0.05\<^sup>2 * (G_ACCELERATION * 10\<^sup>2 - 2 * (2 * pi * 0.05 * 5)) * 5
                    / (2 * (2 * pi * 0.05 * 5) * (real_of_int 5 + 5))"
      using p by (simp add: G_ACCELERATION_def field_simps)
    with A show ?thesis
      by (simp add: prod_eq_iff)
  qed
  have b: "fw_addReading ?B ?s = (Some NonPhysicalResult, ?s)"
  proof -
    have "2 * (2 * pi * 0.05 * 5) * (real_of_int 5 + 5) \<noteq> 0
        \<and> 0.05 * 0.05\<^sup>2 * (G_ACCELERATION * 0.1\<^sup>2 - 2 * (2 * pi * 0.05 * 5)) * 5
                    / (2 * (2 * pi * 0.05 * 5) * (real_of_int 5 + 5)) \<le> 0"
      using p by (simp add: G_ACCELERATION_def field_simps)
    with B show ?thesis
      by (simp add: prod_eq_iff)
  qed
  have c: "fw_addReading ?C ?s = (Some InvalidParameters, ?s)"
    using C by (simp add: prod_eq_iff)
  from a b c show ?thesis by (intro conjI)
qed

text \<open>
  Claim C8. In simulation mode \<open>fw_addReading\<close> shows "Mass is too light." exactly when the
  acceleration \<open>a = (m * g - Tf / r) / (m + I / r\<^sup>2)\<close> is \<open>\<le> 0\<close>, and then leaves the state
  unchanged; when \<open>a > 0\<close> it goes on to the inverse estimate with \<open>t = sqrt (2h / a)\<close>,
  \<open>omega = a * t / r\<close> and \<open>n2 = (I * omega\<^sup>2) / (2 * Tf * 2 * pi)\<close>, each of \<open>t\<close> and \<open>n2\<close>
  times its noise factor. The divisors \<open>r\<close> and \<open>m + I / r\<^sup>2\<close> are taken non-zero.
\<close>

theorem fw_simulation_outcomes:
  assumes "fw_mode s = Simulation"
    and "m = massSlider inp / 1000" and "r = radiusSlider inp / 100" and "n1 = n1Slider inp"
    and "h = 2 * pi * r * real_of_int n1"
    and "I = model_I (fw_model s)" and "Tf = model_Tf (fw_model s)"
    and "r \<noteq> 0" and "m + I / r\<^sup>2 \<noteq> 0"
    and "a = (m * G_ACCELERATION - Tf / r) / (m + I / r\<^sup>2)"
  shows "(fst (fw_addReading inp s) = Some MassTooLight \<longleftrightarrow> a \<le> 0)
       \<and> (a \<le> 0 \<longrightarrow> snd (fw_addReading inp s) = s)
       \<and> (0 < a \<and> 0 \<le> h \<and> Tf \<noteq> 0 \<longrightarrow>
            (\<forall>t omega n2.
               t = sqrt (2 * h / a) \<and> omega = a * t / r \<and> n2 = (I * omega\<^sup>2) / (2 * Tf * 2 * pi)
               \<longrightarrow> fw_addReading inp s =
                     fw_estimate G_ACCELERATION m r n1 h
                       (t * (1 + (fw_random_t inp - 0.5) * 0.03))
                       (n2 * (1 + (fw_random_n2 inp - 0.5) * 0.03)) s))"
proof -
  have a: "fw_acceleration G_ACCELERATION (massSlider inp / 1000) (radiusSlider inp / 100)
             (model_I (fw_model s)) (model_Tf (fw_model s)) = a"
    by (simp add: fw_acceleration_def assms(2,3,6,7,10) power2_eq_square)
  have add: "fw_addReading inp s =
     (if a \<le> 0 then (Some MassTooLight, s)
      else fw_estimate G_ACCELERATION m r n1 h
             (sqrt (2 * h / a) * (1 + (fw_random_t inp - 0.5) * 0.03))
             ((I * (a * sqrt (2 * h / a) / r) * (a * sqrt (2 * h / a) / r)) / (2 * Tf) / (2 * pi)
                * (1 + (fw_random_n2 inp - 0.5) * 0.03)) s)"
    unfolding fw_addReading_simulation [OF assms(1)] fw_simulate_cases a
    by (simp add: assms(2-7))
  have n2: "(I * (a * sqrt (2 * h / a) / r) * (a * sqrt (2 * h / a) / r)) / (2 * Tf) / (2 * pi)
            = (I * (a * sqrt (2 * h / a) / r)\<^sup>2) / (2 * Tf * 2 * pi)"
    by (simp add: power2_eq_square mult.assoc)
  show ?thesis
    unfolding add n2 by (simp add: fw_estimate_not_too_light)
qed

theorem fw_simulation_outcomes_witness:
  "(0.001 * G_ACCELERATION - 0.002 / 0.05) / (0.001 + 0.005 / 0.05\<^sup>2) \<le> 0
   \<and> fw_addReading
     \<lparr>radiusSlider = 5, n1Slider = 5, massSlider = 1, manualMass = None, manualT = None,
       manualN2 = None, fw_random_t = 0.5, fw_random_n2 = 0.5\<rparr>
     \<lparr>fw_readings = [], fw_mode = Simulation, fw_model = \<lparr>model_I = 0.005, model_Tf = 0.002\<rparr>\<rparr>
   = (Some MassTooLight,
      \<lparr>fw_readings = [], fw_mode = Simulation, fw_model = \<lparr>model_I = 0.005, model_Tf = 0.002\<rparr>\<rparr>)
   \<and> 0 < (0.05 * G_ACCELERATION - 0.002 / 0.05) / (0.05 + 0.005 / 0.05\<^sup>2)
   \<and> fst (fw_addReading
     \<lparr>radiusSlider = 5, n1Slider = 5, massSlider = 50, manualMass = None, manualT = None,
       manualN2 = None, fw_random_t = 0.5, fw_random_n2 = 0.5\<rparr>
     \<lparr>fw_readings = [], fw_mode = Simulation, fw_model = \<lparr>model_I = 0.005, model_Tf = 0.002\<rparr>\<rparr>)
   \<noteq> Some MassTooLight
   \<and> fw_addReading
     \<lparr>radiusSlider = 5, n1Slider = 5, massSlider = 50, manualMass = None, manualT = None,
       manualN2 = None, fw_random_t = 0.5, fw_random_n2 = 0.5\<rparr>
     \<lparr>fw_readings = [], fw_mode = Simulation, fw_model = \<lparr>model_I = 0.005, model_Tf = 0.002\<rparr>\<rparr>
   = fw_estimate G_ACCELERATION 0.05 0.05 5 (2 * pi * 0.05 * 5)
       (sqrt (2 * (2 * pi * 0.05 * 5)
              / ((0.05 * G_ACCELERATION - 0.002 / 0.05) / (0.05 + 0.005 / 0.05\<^sup>2)))
        * (1 + (0.5 - 0.5) * 0.03))
       ((0.005 * (((0.05 * G_ACCELERATION - 0.002 / 0.05) / (0.05 + 0.005 / 0.05\<^sup>2))
                  * sqrt (2 * (2 * pi * 0.05 * 5)
                          / ((0.05 * G_ACCELERATION - 0.002 / 0.05) / (0.05 + 0.005 / 0.05\<^sup>2)))
                  / 0.05)\<^sup>2)
        / (2 * 0.002 * 2 * pi)
        * (1 + (0.5 - 0.5) * 0.03))
       \<lparr>fw_readings = [], fw_mode = Simulation, fw_model = \<lparr>model_I = 0.005, model_Tf = 0.002\<rparr>\<rparr>"
proof -
  let ?s = "\<lparr>fw_readings = [], fw_mode = Simulation, fw_model = \<lparr>model_I = 0.005, model_Tf = 0.002\<rparr>\<rparr>"
  let ?L = "\<lparr>radiusSlider = 5, n1Slider = 5, massSlider = 1, manualMass = None, manualT = None,
       manualN2 = None, fw_random_t = 0.5, fw_random_n2 = 0.5\<rparr>"
  let ?H = "\<lparr>radiusSlider = 5, n1Slider = 5, massSlider = 50, manualMass = None, manualT = None,
       manualN2 = None, fw_random_t = 0.5, fw_random_n2 = 0.5\<rparr>"
  let ?aL = "(0.001 * G_ACCELERATION - 0.002 / 0.05) / (0.001 + 0.005 / 0.05\<^sup>2)"
  let ?aH = "(0.05 * G_ACCELERATION - 0.002 / 0.05) / (0.05 + 0.005 / 0.05\<^sup>2)"
  have l: "?aL \<le> 0"
    by (simp add: G_ACCELERATION_def power2_eq_square)
  have h: "0 < ?aH"
    by (simp add: G_ACCELERATION_def power2_eq_square)
  have L: "(fst (fw_addReading ?L ?s) = Some MassTooLight \<longleftrightarrow> ?aL \<le> 0)
         \<and> (?aL \<le> 0 \<longrightarrow> snd (fw_addReading ?L ?s) = ?s)"
    using fw_simulation_outcomes [where s = ?s and inp = ?L and m = "0.001" and r = "0.05"
        and ?n1.0 = 5 and h = "2 * pi * 0.05 * 5" and I = "0.005" and Tf = "0.002" and a = ?aL]
    by (simp add: power2_eq_square)
  have p: "fw_mode ?s = Simulation" "(0.05 :: real) = massSlider ?H / 1000"
    "(0.05 :: real) = radiusSlider ?H / 100" "(5 :: int) = n1Slider ?H"
    "2 * pi * 0.05 * 5 = 2 * pi * 0.05 * real_of_int 5"
    "(0.005 :: real) = model_I (fw_model ?s)" "(0.002 :: real) = model_Tf (fw_model ?s)"
    "(0.05 :: real) \<noteq> 0" "0.05 + 0.005 / 0.05\<^sup>2 \<noteq> (0 :: real)"
    "?aH = (0.05 * G_ACCELERATION - 0.002 / 0.05) / (0.05 + 0.005 / 0.05\<^sup>2)"
    by (simp_all add: power2_eq_square)
  note H = fw_simulation_outcomes [OF p]
  have H1: "fst (fw_addReading ?H ?s) = Some MassTooLight \<longleftrightarrow> ?aH \<le> 0"
    using H by (rule conjunct1)
  have q: "0 < ?aH \<and> 0 \<le> 2 * pi * 0.05 * 5 \<and> (0.002 :: real) \<noteq> 0"
    using h by simp
  have H3: "fw_addReading ?H ?s =
     fw_estimate G_ACCELERATION 0.05 0.05 5 (2 * pi * 0.05 * 5)
       (sqrt (2 * (2 * pi * 0.05 * 5) / ?aH) * (1 + (0.5 - 0.5) * 0.03))
       ((0.005 * (?aH * sqrt (2 * (2 * pi * 0.05 * 5) / ?aH) / 0.05)\<^sup>2) / (2 * 0.002 * 2 * pi)
        * (1 + (0.5 - 0.5) * 0.03)) ?s"
    using H [THEN conjunct2, THEN conjunct2, rule_format, OF q conjI [OF refl conjI [OF refl refl]]]
    unfolding fw_inputs.select_convs .
  from L l have "fw_addReading ?L ?s = (Some MassTooLight, ?s)"
    by (simp add: prod_eq_iff)
  moreover from H1 h have "fst (fw_addReading ?H ?s) \<noteq> Some MassTooLight"
    by simp
  ultimately show ?thesis using l h H3 by (intro conjI)
qed

section \<open>Pendulum: \<open>sp_addReading\<close> and the result panel\<close>

lemma renumber_L: "map sp_L (renumber rs) = map sp_L rs"
proof -
  have "map sp_L (renumber rs) = map (\<lambda>p. sp_L (snd p)) (enumerate 0 rs)"
    by (simp add: renumber_def case_prod_beta)
  also have "\<dots> = map sp_L (map snd (enumerate 0 rs))"
    by (simp only: map_map comp_def)
  also have "\<dots> = map sp_L rs"
    by (simp only: map_snd_enumerate)
  finally show ?thesis .
qed

lemma renumber_sno: "map sp_sno (renumber rs) = [1..<Suc (length rs)]"
proof -
  have "map sp_sno (renumber rs) = map (\<lambda>p. Suc (fst p)) (enumerate 0 rs)"
    by (simp add: renumber_def case_prod_beta)
  also have "\<dots> = map Suc (map fst (enumerate 0 rs))"
    by (simp only: map_map comp_def)
  also have "\<dots> = map Suc [0..<length rs]"
    by (simp only: map_fst_enumerate add_0)
  also have "\<dots> = [1..<Suc (length rs)]"
    by (simp add: map_Suc_upt)
  finally show ?thesis .
qed

lemma length_renumber: "length (renumber rs) = length rs"
  by (simp add: renumber_def)

lemma distinct_map_sort_key:
  "distinct (map f (sort_key f xs)) \<longleftrightarrow> distinct (map f xs)"
proof -
  have "set (map f (sort_key f xs)) = set (map f xs)"
    and "length (map f (sort_key f xs)) = length (map f xs)"
    by simp_all
  then show ?thesis
    by (metis card_distinct distinct_card)
qed

lemma sp_invariant_renumber_sort:
  assumes "distinct (map sp_L rs)"
  shows "sp_invariant (renumber (sort_key sp_L rs))"
  unfolding sp_invariant_def
  using assms
  by (simp add: renumber_L renumber_sno length_renumber distinct_map_sort_key)

lemma sp_addReading_cases:
  "sp_addReading inp s =
     (case sp_measure inp s of
        Inl e \<Rightarrow> (Some e, s)
      | Inr (L, t_measured) \<Rightarrow>
          if list_ex (\<lambda>r. sp_L r = L) (sp_readings s) then (Some LengthExists, s)
          else (None,
                s\<lparr>sp_readings := renumber (sort_key sp_L (sp_readings s @
                  [\<lparr>sp_sno = 0, sp_L = L, sp_t = t_measured,
                    sp_T = t_measured / real_of_int (oscillationsSlider inp),
                    sp_T2 = t_measured / real_of_int (oscillationsSlider inp)
                             * (t_measured / real_of_int (oscillationsSlider inp))\<rparr>]))\<rparr>))"
  unfolding sp_addReading_def Let_def by (rule refl)

lemma sp_addReading_invariant:
  assumes "sp_invariant (sp_readings s)"
  shows "sp_invariant (sp_readings (snd (sp_addReading inp s)))"
proof (cases "sp_measure inp s")
  case (Inl e)
  with assms show ?thesis by (simp add: sp_addReading_cases)
next
  case (Inr p)
  obtain L t_measured where p: "p = (L, t_measured)" by (cases p)
  show ?thesis
  proof (cases "list_ex (\<lambda>r. sp_L r = L) (sp_readings s)")
    case True
    with assms Inr p show ?thesis by (simp add: sp_addReading_cases)
  next
    case False
    then have "L \<notin> set (map sp_L (sp_readings s))"
      by (auto simp add: list_ex_iff)
    with assms have "distinct (map sp_L (sp_readings s @
        [\<lparr>sp_sno = 0, sp_L = L, sp_t = t_measured,
          sp_T = t_measured / real_of_int (oscillationsSlider inp),
          sp_T2 = t_measured / real_of_int (oscillationsSlider inp)
                   * (t_measured / real_of_int (oscillationsSlider inp))\<rparr>]))"
      by (simp add: sp_invariant_def)
    from sp_invariant_renumber_sort [OF this] False Inr p show ?thesis
      by (simp add: sp_addReading_cases)
  qed
qed

lemma sp_invariant_Nil: "sp_invariant []"
  by (simp add: sp_invariant_def)

lemma sp_step_invariant:
  assumes "sp_invariant (sp_readings s)"
  shows "sp_invariant (sp_readings (sp_step e s))"
  using assms
  by (cases e)
    (simp_all add: initPendulumExperiment_def sp_setSimulationGravity_def sp_setMode_def
      sp_environmentChange_def sp_addReading_invariant sp_invariant_Nil)

lemma sp_fold_invariant:
  assumes "sp_invariant (sp_readings s)"
  shows "sp_invariant (sp_readings (fold sp_step evs s))"
  using assms by (induction evs arbitrary: s) (simp_all add: sp_step_invariant)

lemma sp_session_invariant: "sp_invariant (sp_readings (sp_session rnd evs))"
  unfolding sp_session_def
  by (rule sp_fold_invariant)
    (simp add: initPendulumExperiment_def sp_setSimulationGravity_def sp_setMode_def
      sp_invariant_Nil)

lemma linearRegression_two_points:
  assumes "x1 \<noteq> x2"
  shows "slope (linearRegression [x1, x2] [y1, y2]) = (y1 - y2) / (x1 - x2)"
proof -
  have D: "real 2 * (x1 * x1 + x2 * x2) - (x1 + x2) * (x1 + x2) = (x1 - x2) * (x1 - x2)"
    by (simp add: algebra_simps)
  have N: "real 2 * (x1 * y1 + x2 * y2) - (x1 + x2) * (y1 + y2) = (x1 - x2) * (y1 - y2)"
    by (simp add: algebra_simps)
  have "linearRegression [x1, x2] [y1, y2] =
     (if (2 :: nat) = 0 then \<lparr>slope = 0, intercept = 0, r2 = 0\<rparr>
      else if real 2 * (x1 * x1 + x2 * x2) - (x1 + x2) * (x1 + x2) = 0
        then \<lparr>slope = 0, intercept = 0, r2 = 0\<rparr>
      else
        \<lparr>slope = (real 2 * (x1 * y1 + x2 * y2) - (x1 + x2) * (y1 + y2))
                   / (real 2 * (x1 * x1 + x2 * x2) - (x1 + x2) * (x1 + x2)),
         intercept = ((y1 + y2) - (real 2 * (x1 * y1 + x2 * y2) - (x1 + x2) * (y1 + y2))
                   / (real 2 * (x1 * x1 + x2 * x2) - (x1 + x2) * (x1 + x2)) * (x1 + x2)) / real 2,
         r2 =
           (if sqrt ((real 2 * (x1 * x1 + x2 * x2) - (x1 + x2) * (x1 + x2))
                     * (real 2 * (y1 * y1 + y2 * y2) - (y1 + y2) * (y1 + y2))) = 0 then 1
            else ((real 2 * (x1 * y1 + x2 * y2) - (x1 + x2) * (y1 + y2))
                  / sqrt ((real 2 * (x1 * x1 + x2 * x2) - (x1 + x2) * (x1 + x2))
                          * (real 2 * (y1 * y1 + y2 * y2) - (y1 + y2) * (y1 + y2))))\<^sup>2)\<rparr>)"
    by (rule linearRegression_gen(2)) simp_all
  then have "slope (linearRegression [x1, x2] [y1, y2]) =
        ((x1 - x2) * (y1 - y2)) / ((x1 - x2) * (x1 - x2))"
    unfolding D N using assms by simp
  also have "\<dots> = (y1 - y2) / (x1 - x2)"
    using assms by simp
  finally show ?thesis .
qed

lemma sp_measure_noiseless:
  assumes "sp_mode s = Simulation" and "sp_random inp = 0.5"
  shows "sp_measure inp s =
         Inr (lengthSlider inp,
              real_of_int (oscillationsSlider inp) * (2 * pi * sqrt (lengthSlider inp / sp_gravity s)))"
  using assms by (simp add: sp_measure_def Let_def)

lemma sp_addReading_noiseless:
  assumes "sp_mode s = Simulation" and "sp_random inp = 0.5"
    and "0 < sp_gravity s" and "0 < lengthSlider inp" and "0 < oscillationsSlider inp"
    and "\<not> list_ex (\<lambda>r. sp_L r = lengthSlider inp) (sp_readings s)"
  shows "sp_addReading inp s =
     (None,
      s\<lparr>sp_readings := renumber (sort_key sp_L (sp_readings s @
         [\<lparr>sp_sno = 0, sp_L = lengthSlider inp,
           sp_t = real_of_int (oscillationsSlider inp) * (2 * pi * sqrt (lengthSlider inp / sp_gravity s)),
           sp_T = 2 * pi * sqrt (lengthSlider inp / sp_gravity s),
           sp_T2 = 4 * pi\<^sup>2 * lengthSlider inp / sp_gravity s\<rparr>]))\<rparr>)"
proof -
  define T where "T = 2 * pi * sqrt (lengthSlider inp / sp_gravity s)"
  have n: "real_of_int (oscillationsSlider inp) \<noteq> 0" using assms(5) by simp
  then have q: "real_of_int (oscillationsSlider inp) * T / real_of_int (oscillationsSlider inp) = T"
    by simp
  define q where "q = sqrt (lengthSlider inp / sp_gravity s)"
  have "0 \<le> lengthSlider inp / sp_gravity s" using assms(3,4) by simp
  then have "q\<^sup>2 = lengthSlider inp / sp_gravity s"
    unfolding q_def by (rule real_sqrt_pow2)
  then have qq: "q * q = lengthSlider inp / sp_gravity s"
    by (simp add: power2_eq_square)
  have "T * T = 4 * pi * pi * (q * q)"
    unfolding T_def q_def [symmetric] by (simp add: algebra_simps)
  then have "T * T = 4 * pi * pi * (lengthSlider inp / sp_gravity s)"
    by (simp only: qq)
  then have TT: "T * T = 4 * pi\<^sup>2 * lengthSlider inp / sp_gravity s"
    by (simp add: power2_eq_square)
  show ?thesis
    unfolding sp_addReading_cases sp_measure_noiseless [OF assms(1,2)] T_def [symmetric]
    using assms(5,6) by (simp add: TT)
qed

lemma renumber_two: "renumber [a, b] = [a\<lparr>sp_sno := 1\<rparr>, b\<lparr>sp_sno := 2\<rparr>]"
  by (simp add: renumber_def)

lemma renumber_one: "renumber [a] = [a\<lparr>sp_sno := 1\<rparr>]"
  by (simp add: renumber_def)

lemma sp_two_readings_gravity:
  assumes "0 < g" and "L1 \<noteq> L2"
    and "sp_readings s2 = renumber (sort_key sp_L
          [\<lparr>sp_sno = k1, sp_L = L1, sp_t = t1, sp_T = T1, sp_T2 = 4 * pi\<^sup>2 * L1 / g\<rparr>,
           \<lparr>sp_sno = k2, sp_L = L2, sp_t = t2, sp_T = T2, sp_T2 = 4 * pi\<^sup>2 * L2 / g\<rparr>])"
  shows "\<exists>res. sp_updateUI s2 = Some res \<and> graph_slope res = g / (4 * pi\<^sup>2) \<and> calculated_g res = g"
proof -
  define x1 where "x1 = 4 * pi\<^sup>2 * L1 / g"
  define x2 where "x2 = 4 * pi\<^sup>2 * L2 / g"
  have diff: "x1 - x2 = 4 * pi\<^sup>2 * (L1 - L2) / g"
    by (simp add: x1_def x2_def algebra_simps diff_divide_distrib)
  have p: "4 * pi\<^sup>2 \<noteq> 0" by simp
  have ne: "x1 \<noteq> x2"
    using assms(1,2) diff by auto
  have "(L1 - L2) / (x1 - x2) = (L1 - L2) / (4 * pi\<^sup>2 * (L1 - L2) / g)"
    by (simp only: diff)
  also have "\<dots> = g / (4 * pi\<^sup>2)"
    using assms(1,2) by (simp add: field_simps)
  finally have sl: "(L1 - L2) / (x1 - x2) = g / (4 * pi\<^sup>2)" .
  then have sl': "(L2 - L1) / (x2 - x1) = g / (4 * pi\<^sup>2)"
    by (metis minus_diff_eq minus_divide_divide)
  have maps: "(map sp_T2 (sp_readings s2) = [x1, x2] \<and> map sp_L (sp_readings s2) = [L1, L2])
      \<or> (map sp_T2 (sp_readings s2) = [x2, x1] \<and> map sp_L (sp_readings s2) = [L2, L1])"
    by (simp add: assms(3) renumber_two x1_def x2_def)
  have len: "length (sp_readings s2) = 2"
    using maps by (metis length_map length_Cons list.size(3) numeral_2_eq_2)
  from maps have "slope (linearRegression (map sp_T2 (sp_readings s2)) (map sp_L (sp_readings s2)))
        = g / (4 * pi\<^sup>2)"
  proof
    assume "map sp_T2 (sp_readings s2) = [x1, x2] \<and> map sp_L (sp_readings s2) = [L1, L2]"
    then show ?thesis
      using linearRegression_two_points [OF ne, of L1 L2] sl by simp
  next
    assume "map sp_T2 (sp_readings s2) = [x2, x1] \<and> map sp_L (sp_readings s2) = [L2, L1]"
    then show ?thesis
      using linearRegression_two_points [OF ne [symmetric], of L2 L1] sl' by simp
  qed
  then have "sp_updateUI s2 =
      Some \<lparr>graph_slope = g / (4 * pi\<^sup>2), calculated_g = g / (4 * pi\<^sup>2) * 4 * pi * pi,
             correlation = r2 (linearRegression (map sp_T2 (sp_readings s2)) (map sp_L (sp_readings s2)))\<rparr>"
    using len by (simp add: sp_updateUI_def Let_def)
  moreover have "g / (4 * pi\<^sup>2) * 4 * pi * pi = g"
    by (simp add: power2_eq_square)
  ultimately show ?thesis by simp
qed

lemma sp_addReading_inserted:
  assumes "sp_addReading inp s = (None, s')"
  shows "length (sp_readings s') = Suc (length (sp_readings s))"
proof (cases "sp_measure inp s")
  case (Inl e)
  with assms show ?thesis by (simp add: sp_addReading_cases)
next
  case (Inr p)
  obtain L t_measured where p: "p = (L, t_measured)" by (cases p)
  from assms Inr p show ?thesis
    by (auto simp add: sp_addReading_cases length_renumber split: if_splits)
qed

section \<open>Claims about the pendulum\<close>

text \<open>
  Claim C1. Pendulum round trip: in simulation mode with gravity \<open>g > 0\<close> and no readings,
  two readings added without noise (the draw of \<open>Math.random()\<close> is \<open>0.5\<close>, so
  \<open>t_measured = n * 2 * pi * sqrt (L / g)\<close>) at distinct lengths \<open>L1, L2 > 0\<close> and positive
  oscillation counts are both recorded, and the result panel then reports the slope
  \<open>g / (4 * pi\<^sup>2)\<close> of the regression of \<open>L\<close> on \<open>T\<^sup>2\<close> and the calculated gravity
  \<open>slope * 4 * pi\<^sup>2 = g\<close>, exactly.
\<close>

theorem sp_round_trip:
  assumes "0 < g" and "0 < L1" and "0 < L2" and "L1 \<noteq> L2"
    and "sp_mode s = Simulation" and "sp_gravity s = g" and "sp_readings s = []"
    and "lengthSlider inp1 = L1" and "0 < oscillationsSlider inp1" and "sp_random inp1 = 0.5"
    and "lengthSlider inp2 = L2" and "0 < oscillationsSlider inp2" and "sp_random inp2 = 0.5"
  shows "fst (sp_addReading inp1 s) = None
       \<and> fst (sp_addReading inp2 (snd (sp_addReading inp1 s))) = None
       \<and> (\<exists>res. sp_updateUI (snd (sp_addReading inp2 (snd (sp_addReading inp1 s)))) = Some res
                \<and> graph_slope res = g / (4 * pi\<^sup>2) \<and> calculated_g res = g)"
proof -
  define rd1 where "rd1 = \<lparr>sp_sno = 1, sp_L = L1,
      sp_t = real_of_int (oscillationsSlider inp1) * (2 * pi * sqrt (L1 / g)),
      sp_T = 2 * pi * sqrt (L1 / g), sp_T2 = 4 * pi\<^sup>2 * L1 / g\<rparr>"
  define s1 where "s1 = s\<lparr>sp_readings := [rd1]\<rparr>"
  have a1: "sp_addReading inp1 s = (None, s1)"
    using sp_addReading_noiseless [of s inp1] assms(1,2,5-10)
    by (simp add: renumber_one s1_def rd1_def)
  have dup: "\<not> list_ex (\<lambda>r. sp_L r = lengthSlider inp2) (sp_readings s1)"
    using assms(4) by (simp add: s1_def rd1_def assms(11))
  have a2: "sp_addReading inp2 s1 =
     (None,
      s1\<lparr>sp_readings := renumber (sort_key sp_L (sp_readings s1 @
         [\<lparr>sp_sno = 0, sp_L = lengthSlider inp2,
           sp_t = real_of_int (oscillationsSlider inp2) * (2 * pi * sqrt (lengthSlider inp2 / sp_gravity s1)),
           sp_T = 2 * pi * sqrt (lengthSlider inp2 / sp_gravity s1),
           sp_T2 = 4 * pi\<^sup>2 * lengthSlider inp2 / sp_gravity s1\<rparr>]))\<rparr>)"
    using assms(1,3,5,6,12,13) dup
    by (intro sp_addReading_noiseless) (simp_all add: s1_def assms(11))
  have rs: "sp_readings (snd (sp_addReading inp2 s1)) = renumber (sort_key sp_L
          [\<lparr>sp_sno = 1, sp_L = L1, sp_t = real_of_int (oscillationsSlider inp1) * (2 * pi * sqrt (L1 / g)),
             sp_T = 2 * pi * sqrt (L1 / g), sp_T2 = 4 * pi\<^sup>2 * L1 / g\<rparr>,
           \<lparr>sp_sno = 0, sp_L = L2, sp_t = real_of_int (oscillationsSlider inp2) * (2 * pi * sqrt (L2 / g)),
             sp_T = 2 * pi * sqrt (L2 / g), sp_T2 = 4 * pi\<^sup>2 * L2 / g\<rparr>])"
    unfolding a2 by (simp add: s1_def rd1_def assms(6,11))
  from sp_two_readings_gravity [OF assms(1,4) rs] a1 a2
  show ?thesis by simp
qed

theorem sp_round_trip_witness:
  "(0 :: real) < 10 \<and> (1 :: real) \<noteq> 4
   \<and> (\<exists>res. sp_updateUI (snd (sp_addReading
          \<lparr>oscillationsSlider = 20, lengthSlider = 4, manualLengthInput = None,
            manualTimeInput = None, sp_random = 0.5\<rparr>
          (snd (sp_addReading
             \<lparr>oscillationsSlider = 20, lengthSlider = 1, manualLengthInput = None,
               manualTimeInput = None, sp_random = 0.5\<rparr>
             \<lparr>sp_readings = [], sp_mode = Simulation, sp_gravity = 10\<rparr>)))) = Some res
        \<and> calculated_g res = 10)"
  using sp_round_trip [where g = 10 and ?L1.0 = 1 and ?L2.0 = 4
      and s = "\<lparr>sp_readings = [], sp_mode = Simulation, sp_gravity = 10\<rparr>"
      and ?inp1.0 = "\<lparr>oscillationsSlider = 20, lengthSlider = 1, manualLengthInput = None,
               manualTimeInput = None, sp_random = 0.5\<rparr>"
      and ?inp2.0 = "\<lparr>oscillationsSlider = 20, lengthSlider = 4, manualLengthInput = None,
            manualTimeInput = None, sp_random = 0.5\<rparr>"]
  by auto

text \<open>
  Claim C9. In every state of a pendulum session the stored readings have pairwise distinct
  lengths, ascending, and sequence numbers \<open>1..N\<close>; a successful insertion keeps this and
  adds one reading; an insertion whose length equals a stored reading's length shows
  "A reading for this length already exists." and leaves the state unchanged. (The
  statement reads the fields \<open>L\<close> and \<open>sno\<close> only; it does not depend on the values of
  \<open>t\<close>, \<open>T\<close> and \<open>T2\<close>.)
\<close>

theorem sp_reading_set_invariant:
  "sp_invariant (sp_readings (sp_session rnd evs))
   \<and> (sp_invariant (sp_readings s) \<and> sp_addReading inp s = (None, s')
        \<longrightarrow> sp_invariant (sp_readings s')
            \<and> length (sp_readings s') = Suc (length (sp_readings s)))
   \<and> (sp_mode s = Simulation \<and> list_ex (\<lambda>r. sp_L r = lengthSlider inp) (sp_readings s)
        \<longrightarrow> sp_addReading inp s = (Some LengthExists, s))
   \<and> (sp_mode s = Manual \<and> manualLengthInput inp = Some L \<and> manualTimeInput inp = Some t_measured
        \<and> 0 < L \<and> 0 < t_measured \<and> list_ex (\<lambda>r. sp_L r = L) (sp_readings s)
        \<longrightarrow> sp_addReading inp s = (Some LengthExists, s))"
proof -
  have a: "sp_invariant (sp_readings s') \<and> length (sp_readings s') = Suc (length (sp_readings s))"
    if "sp_invariant (sp_readings s)" "sp_addReading inp s = (None, s')"
    using sp_addReading_invariant [OF that(1), of inp] sp_addReading_inserted [OF that(2)] that(2)
    by simp
  have b: "sp_addReading inp s = (Some LengthExists, s)"
    if "sp_mode s = Simulation" "list_ex (\<lambda>r. sp_L r = lengthSlider inp) (sp_readings s)"
    using that by (simp add: sp_addReading_cases sp_measure_def Let_def)
  have c: "sp_addReading inp s = (Some LengthExists, s)"
    if "sp_mode s = Manual" "manualLengthInput inp = Some L" "manualTimeInput inp = Some t_measured"
      "0 < L" "0 < t_measured" "list_ex (\<lambda>r. sp_L r = L) (sp_readings s)"
    using that by (simp add: sp_addReading_cases sp_measure_def Let_def)
  from sp_session_invariant [of rnd evs] a b c show ?thesis by blast
qed

theorem sp_reading_set_invariant_witness:
  "sp_readings (sp_session 0
      [SpSetMode Manual,
       SpAddReading \<lparr>oscillationsSlider = 10, lengthSlider = 1, manualLengthInput = Some 2,
         manualTimeInput = Some 20, sp_random = 0\<rparr>,
       SpAddReading \<lparr>oscillationsSlider = 10, lengthSlider = 1, manualLengthInput = Some 1,
         manualTimeInput = Some 10, sp_random = 0\<rparr>])
   = [\<lparr>sp_sno = 1, sp_L = 1, sp_t = 10, sp_T = 1, sp_T2 = 1\<rparr>,
      \<lparr>sp_sno = 2, sp_L = 2, sp_t = 20, sp_T = 2, sp_T2 = 4\<rparr>]
   \<and> sp_invariant
       [\<lparr>sp_sno = 1, sp_L = 1, sp_t = 10, sp_T = 1, sp_T2 = 1\<rparr>,
        \<lparr>sp_sno = 2, sp_L = 2, sp_t = 20, sp_T = 2, sp_T2 = 4\<rparr>]
   \<and> sp_addReading
        \<lparr>oscillationsSlider = 10, lengthSlider = 1, manualLengthInput = Some 2,
          manualTimeInput = Some 30, sp_random = 0\<rparr>
        \<lparr>sp_readings =
           [\<lparr>sp_sno = 1, sp_L = 1, sp_t = 10, sp_T = 1, sp_T2 = 1\<rparr>,
            \<lparr>sp_sno = 2, sp_L = 2, sp_t = 20, sp_T = 2, sp_T2 = 4\<rparr>],
          sp_mode = Manual, sp_gravity = 5\<rparr>
      = (Some LengthExists,
         \<lparr>sp_readings =
           [\<lparr>sp_sno = 1, sp_L = 1, sp_t = 10, sp_T = 1, sp_T2 = 1\<rparr>,
            \<lparr>sp_sno = 2, sp_L = 2, sp_t = 20, sp_T = 2, sp_T2 = 4\<rparr>],
          sp_mode = Manual, sp_gravity = 5\<rparr>)
   \<and> sp_addReading
        \<lparr>oscillationsSlider = 10, lengthSlider = 1, manualLengthInput = None,
          manualTimeInput = None, sp_random = 0\<rparr>
        \<lparr>sp_readings =
           [\<lparr>sp_sno = 1, sp_L = 1, sp_t = 10, sp_T = 1, sp_T2 = 1\<rparr>,
            \<lparr>sp_sno = 2, sp_L = 2, sp_t = 20, sp_T = 2, sp_T2 = 4\<rparr>],
          sp_mode = Simulation, sp_gravity = 5\<rparr>
      = (Some LengthExists,
         \<lparr>sp_readings =
           [\<lparr>sp_sno = 1, sp_L = 1, sp_t = 10, sp_T = 1, sp_T2 = 1\<rparr>,
            \<lparr>sp_sno = 2, sp_L = 2, sp_t = 20, sp_T = 2, sp_T2 = 4\<rparr>],
          sp_mode = Simulation, sp_gravity = 5\<rparr>)
   \<and> sp_addReading
        \<lparr>oscillationsSlider = 10, lengthSlider = 1, manualLengthInput = Some 1.5,
          manualTimeInput = Some 15, sp_random = 0\<rparr>
        \<lparr>sp_readings =
           [\<lparr>sp_sno = 1, sp_L = 1, sp_t = 10, sp_T = 1, sp_T2 = 1\<rparr>,
            \<lparr>sp_sno = 2, sp_L = 2, sp_t = 20, sp_T = 2, sp_T2 = 4\<rparr>],
          sp_mode = Manual, sp_gravity = 5\<rparr>
      = (None,
         \<lparr>sp_readings =
           [\<lparr>sp_sno = 1, sp_L = 1, sp_t = 10, sp_T = 1, sp_T2 = 1\<rparr>,
            \<lparr>sp_sno = 2, sp_L = 1.5, sp_t = 15, sp_T = 1.5, sp_T2 = 1.5 * 1.5\<rparr>,
            \<lparr>sp_sno = 3, sp_L = 2, sp_t = 20, sp_T = 2, sp_T2 = 4\<rparr>],
          sp_mode = Manual, sp_gravity = 5\<rparr>)
   \<and> sp_invariant
       [\<lparr>sp_sno = 1, sp_L = 1, sp_t = 10, sp_T = 1, sp_T2 = 1\<rparr>,
        \<lparr>sp_sno = 2, sp_L = 1.5, sp_t = 15, sp_T = 1.5, sp_T2 = 1.5 * 1.5\<rparr>,
        \<lparr>sp_sno = 3, sp_L = 2, sp_t = 20, sp_T = 2, sp_T2 = 4\<rparr>]"
proof -
  let ?evs = "[SpSetMode Manual,
       SpAddReading \<lparr>oscillationsSlider = 10, lengthSlider = 1, manualLengthInput = Some 2,
         manualTimeInput = Some 20, sp_random = 0\<rparr>,
       SpAddReading \<lparr>oscillationsSlider = 10, lengthSlider = 1, manualLengthInput = Some 1,
         manualTimeInput = Some 10, sp_random = 0\<rparr>]"
  let ?rs = "[\<lparr>sp_sno = 1, sp_L = 1, sp_t = 10, sp_T = 1, sp_T2 = 1\<rparr>,
      \<lparr>sp_sno = 2, sp_L = 2, sp_t = 20, sp_T = 2, sp_T2 = 4\<rparr>]"
  let ?rs' = "[\<lparr>sp_sno = 1, sp_L = 1, sp_t = 10, sp_T = 1, sp_T2 = 1\<rparr>,
        \<lparr>sp_sno = 2, sp_L = 1.5, sp_t = 15, sp_T = 1.5, sp_T2 = 1.5 * 1.5\<rparr>,
        \<lparr>sp_sno = 3, sp_L = 2, sp_t = 20, sp_T = 2, sp_T2 = 4\<rparr>]"
  let ?s = "\<lparr>sp_readings = ?rs, sp_mode = Manual, sp_gravity = 5\<rparr>"
  let ?s' = "\<lparr>sp_readings = ?rs', sp_mode = Manual, sp_gravity = 5\<rparr>"
  let ?sim = "\<lparr>sp_readings = ?rs, sp_mode = Simulation, sp_gravity = 5\<rparr>"
  let ?dup = "\<lparr>oscillationsSlider = 10, lengthSlider = 1, manualLengthInput = Some 2,
          manualTimeInput = Some 30, sp_random = 0\<rparr>"
  let ?dup' = "\<lparr>oscillationsSlider = 10, lengthSlider = 1, manualLengthInput = None,
          manualTimeInput = None, sp_random = 0\<rparr>"
  let ?new = "\<lparr>oscillationsSlider = 10, lengthSlider = 1, manualLengthInput = Some 1.5,
          manualTimeInput = Some 15, sp_random = 0\<rparr>"
  have run: "sp_session 0 ?evs = ?s"
    by (simp add: sp_session_def initPendulumExperiment_def sp_setSimulationGravity_def
        sp_setMode_def sp_addReading_cases sp_measure_def renumber_def)
  have ins: "sp_addReading ?new ?s = (None, ?s')"
    by (simp add: sp_addReading_cases sp_measure_def renumber_def)
  note t = sp_reading_set_invariant [where rnd = 0 and evs = ?evs and s = ?s and inp = ?dup
      and L = 2 and t_measured = 30]
  note u = sp_reading_set_invariant [where s = ?sim and inp = ?dup']
  note v = sp_reading_set_invariant [where s = ?s and inp = ?new and s' = ?s']
  from t have inv: "sp_invariant (sp_readings (sp_session 0 ?evs))" by (rule conjunct1)
  have c1: "sp_readings (sp_session 0 ?evs) = ?rs" by (simp add: run)
  from inv have c2: "sp_invariant ?rs" by (simp add: run)
  from t have c3: "sp_addReading ?dup ?s = (Some LengthExists, ?s)" by simp
  from u have c4: "sp_addReading ?dup' ?sim = (Some LengthExists, ?sim)" by simp
  from v c2 ins have c5: "sp_invariant ?rs'" by simp
  from c1 c2 c3 c4 ins c5 show ?thesis by (intro conjI)
qed

section \<open>Evaluation over doubles\<close>

lemmas double_eval =
  double_of_def overflow_def round_at_def quantum_def round_even_def ties_even_def
  pow2_def floor_log2_def neg_log2_def halvings_def

lemma double_of_3_10: "double_of 0.3 = Fin (5404319552844595 / 18014398509481984)"
  by (simp add: double_eval)

lemma upt_0_3: "[0..<3] = [0, 1, 2]"
  by (simp add: numeral_3_eq_3 upt_rec)

lemma lr_loop_d_example:
  "lr_loop_d 3 [double_of 0.3, double_of 0.3, double_of 0.3] [Fin 1, Fin 2, Fin 3] =
     \<lparr>sum_x_d = Fin (2026619832316723 / 2251799813685248), sum_y_d = Fin 6,
      sum_xy_d = Fin (2026619832316723 / 1125899906842624),
      sum_xx_d = Fin (607985949695017 / 2251799813685248), sum_yy_d = Fin 14\<rparr>"
  by (simp add: lr_loop_d_def lr_body_d_def nth_d_def double_of_3_10 upt_0_3 double_eval)


lemma lr_denominator_d_example:
  "lr_denominator_d (Fin 3)
     \<lparr>sum_x_d = Fin (2026619832316723 / 2251799813685248), sum_y_d = Fin 6,
      sum_xy_d = Fin (2026619832316723 / 1125899906842624),
      sum_xx_d = Fin (607985949695017 / 2251799813685248), sum_yy_d = Fin 14\<rparr>
   = Fin (1 / 4503599627370496)"
  by (simp add: lr_denominator_d_def fsub_def double_eval)

lemma lr_numerator_d_example:
  "lr_numerator_d (Fin 3)
     \<lparr>sum_x_d = Fin (2026619832316723 / 2251799813685248), sum_y_d = Fin 6,
      sum_xy_d = Fin (2026619832316723 / 1125899906842624),
      sum_xx_d = Fin (607985949695017 / 2251799813685248), sum_yy_d = Fin 14\<rparr>
   = Fin 0"
  by (simp add: lr_numerator_d_def fsub_def double_eval)

lemma lr_slope_d_example:
  "lr_slope_d (Fin 3)
     \<lparr>sum_x_d = Fin (2026619832316723 / 2251799813685248), sum_y_d = Fin 6,
      sum_xy_d = Fin (2026619832316723 / 1125899906842624),
      sum_xx_d = Fin (607985949695017 / 2251799813685248), sum_yy_d = Fin 14\<rparr>
   = Fin 0"
  unfolding lr_slope_d_def lr_denominator_d_example lr_numerator_d_example
  by (simp add: double_of_def)

lemma lr_intercept_d_example:
  "lr_intercept_d (Fin 3)
     \<lparr>sum_x_d = Fin (2026619832316723 / 2251799813685248), sum_y_d = Fin 6,
      sum_xy_d = Fin (2026619832316723 / 1125899906842624),
      sum_xx_d = Fin (607985949695017 / 2251799813685248), sum_yy_d = Fin 14\<rparr>
   = Fin 2"
  unfolding lr_intercept_d_def lr_slope_d_example
  by (simp add: fsub_def double_eval)

lemma linearRegression_d_example:
  "linearRegression_d [double_of 0.3, double_of 0.3, double_of 0.3] [Fin 1, Fin 2, Fin 3]
   = \<lparr>slope_d = Fin 0, intercept_d = Fin 2,
      r2_d = lr_r2_d (Fin 3)
        (lr_loop_d 3 [double_of 0.3, double_of 0.3, double_of 0.3] [Fin 1, Fin 2, Fin 3])\<rparr>"
proof -
  have len: "length [double_of 0.3, double_of 0.3, double_of 0.3] = 3"
    by simp
  have n: "Fin (real 3) = Fin 3" by simp
  have ne: "\<not> feq (Fin (1 / 4503599627370496)) (Fin 0)"
    by (simp add: feq_def)
  have z: "(3 :: nat) \<noteq> 0" by simp
  show ?thesis
    unfolding linearRegression_d_def Let_def len n lr_fit_d_def
    unfolding lr_loop_d_example lr_denominator_d_example lr_slope_d_example
      lr_intercept_d_example
    using ne z by (simp only: if_False)
qed

lemma double_of_981: "G_ACCELERATION_d = Fin (5522539043063071 / 562949953421312)"
  by (simp add: G_ACCELERATION_d_def double_eval)

lemma double_of_1e200:
  "double_of (10 ^ 200) = Fin 99999999999999996973312221251036165947450327545502362648241750950346848435554075534196338404706251868027512415973882408182135734368278484639385041047239877871023591066789981811181813306167128854888448"
  by (simp add: double_eval)

lemma double_of_1e308:
  "double_of (10 ^ 308) = Fin 100000000000000001097906362944045541740492309677311846336810682903157585404911491537163328978494688899061249669721172515611590283743140088328307009198146046031271664502933027185697489699588559043338384466165001178426897626212945177628091195786707458122783970171784415105291802893207873272974885715430223118336"
  by (simp add: double_eval)

lemma fw_fraction_d:
  "fdiv (Fin 5) (Fin 100) = Fin (3602879701896397 / 72057594037927936)"
  "fdiv (Fin 50) (Fin 1000) = Fin (3602879701896397 / 72057594037927936)"
  by (simp_all add: double_eval)

lemma fw_h_d_example:
  "fw_h_d (Fin (3602879701896397 / 72057594037927936)) (Fin 5)
   = Fin (884279719003555 / 562949953421312)"
  by (simp add: fw_h_d_def Math_PI_def double_eval)

lemma fw_term1_d_overflow:
  "fw_term1_d (Fin 5) (Fin (884279719003555 / 562949953421312)) (double_of (10 ^ 308)) = PInf"
  unfolding fw_term1_d_def double_of_1e308
  by (simp add: double_eval)

lemma fw_square_overflow:
  "fmul (fmul (Fin (5522539043063071 / 562949953421312)) (double_of (10 ^ 200)))
     (double_of (10 ^ 200)) = PInf"
  unfolding double_of_1e200
  by (simp add: double_eval)

lemma fw_term2_d_overflow:
  "fw_term2_d G_ACCELERATION_d (Fin (3602879701896397 / 72057594037927936))
     (Fin (3602879701896397 / 72057594037927936)) (Fin (884279719003555 / 562949953421312))
     (double_of (10 ^ 200)) (double_of (10 ^ 308)) = PInf"
  unfolding fw_term2_d_def double_of_981 fw_square_overflow
  unfolding double_of_1e308
  by (simp add: fsub_def double_eval)


lemma double_of_1_20: "double_of (1 / 20) = Fin (3602879701896397 / 72057594037927936)"
  by (simp add: double_eval)

lemma fw_manual_d_example:
  "fw_manual_d
     \<lparr>radiusSlider_d = Fin 5, n1Slider_d = Fin 5, massSlider_d = Fin 50, manualMass_d = Fin 50,
       manualT_d = double_of (10 ^ 200), manualN2_d = double_of (10 ^ 308),
       fw_random_t_d = Fin 0, fw_random_n2_d = Fin 0\<rparr>
   = Inr (Fin (3602879701896397 / 72057594037927936), double_of (10 ^ 200), double_of (10 ^ 308))"
  unfolding fw_manual_d_def Let_def fw_inputs_d.select_convs double_of_1e200 double_of_1e308
  by (simp add: double_of_1_20)

lemma fw_estimate_d_example:
  "fw_estimate_d G_ACCELERATION_d (Fin (3602879701896397 / 72057594037927936))
     (Fin (3602879701896397 / 72057594037927936)) (Fin 5)
     (Fin (884279719003555 / 562949953421312)) (double_of (10 ^ 200)) (double_of (10 ^ 308)) s
   = (None,
      s\<lparr>fw_readings_d :=
          fw_readings_d s @
          [\<lparr>fw_m_d = Fin (3602879701896397 / 72057594037927936),
            fw_h_d = Fin (884279719003555 / 562949953421312),
            fw_t_d = double_of (10 ^ 200), fw_n2_d = double_of (10 ^ 308), fw_I_d = NaN\<rparr>]\<rparr>)"
  unfolding fw_estimate_d_def Let_def fw_term1_d_overflow fw_term2_d_overflow
  by (simp add: feq_def)

section \<open>Claims decided by double arithmetic\<close>

text \<open>
  Claim C4, a defect of the code. The claim takes all-equal \<open>x\<close> as the degenerate case,
  with the result \<open>{slope: 0, intercept: 0, r2: 0}\<close>. Over doubles the guard
  \<open>denominator === 0\<close> tests a rounded value: for \<open>x = [0.3, 0.3, 0.3]\<close> and
  \<open>y = [1, 2, 3]\<close> the sum of \<open>x\<close> is \<open>0.8999999999999999\<close>, the denominator is
  \<open>2 ^ - 52\<close> and not \<open>0\<close>, and \<open>linearRegression\<close> returns slope \<open>0\<close> and
  intercept \<open>2\<close>.
\<close>

theorem linearRegression_rounded_denominator:
  "lr_denominator_d (Fin 3)
     (lr_loop_d 3 [double_of 0.3, double_of 0.3, double_of 0.3] [Fin 1, Fin 2, Fin 3])
     = Fin (1 / 2 ^ 52)
   \<and> slope_d
       (linearRegression_d [double_of 0.3, double_of 0.3, double_of 0.3] [Fin 1, Fin 2, Fin 3])
     = Fin 0
   \<and> intercept_d
       (linearRegression_d [double_of 0.3, double_of 0.3, double_of 0.3] [Fin 1, Fin 2, Fin 3])
     = Fin 2
   \<and> linearRegression_d [double_of 0.3, double_of 0.3, double_of 0.3] [Fin 1, Fin 2, Fin 3]
     \<noteq> \<lparr>slope_d = Fin 0, intercept_d = Fin 0, r2_d = Fin 0\<rparr>"
proof -
  have "lr_denominator_d (Fin 3)
     (lr_loop_d 3 [double_of 0.3, double_of 0.3, double_of 0.3] [Fin 1, Fin 2, Fin 3])
     = Fin (1 / 2 ^ 52)"
    unfolding lr_loop_d_example lr_denominator_d_example by simp
  then show ?thesis
    by (simp add: linearRegression_d_example)
qed

text \<open>
  Claim C10, a defect of the code. The claim says that every stored reading has \<open>I > 0\<close>.
  In manual mode with mass \<open>50\<close>, fall time \<open>1e200\<close> and rotations \<open>1e308\<close> (radius
  slider \<open>5\<close>, windings \<open>5\<close>) the entries pass the test for positive numbers, \<open>term1\<close>
  and \<open>term2\<close> both overflow to \<open>Infinity\<close>, \<open>I_calc\<close> is \<open>NaN\<close>, the guard
  \<open>I_calc <= 0\<close> is false for it, and the reading recorded has \<open>I = NaN\<close>.
\<close>

theorem fw_addReading_records_NaN:
  "fw_addReading_d
     \<lparr>radiusSlider_d = Fin 5, n1Slider_d = Fin 5, massSlider_d = Fin 50, manualMass_d = Fin 50,
       manualT_d = double_of (10 ^ 200), manualN2_d = double_of (10 ^ 308),
       fw_random_t_d = Fin 0, fw_random_n2_d = Fin 0\<rparr>
     \<lparr>fw_readings_d = [], fw_mode_d = Manual,
       fw_model_d = \<lparr>model_I_d = double_of 0.005, model_Tf_d = double_of 0.002\<rparr>\<rparr>
   = (None,
      \<lparr>fw_readings_d =
         [\<lparr>fw_m_d = Fin (3602879701896397 / 72057594037927936),
           fw_h_d = Fin (884279719003555 / 562949953421312),
           fw_t_d = double_of (10 ^ 200), fw_n2_d = double_of (10 ^ 308), fw_I_d = NaN\<rparr>],
       fw_mode_d = Manual,
       fw_model_d = \<lparr>model_I_d = double_of 0.005, model_Tf_d = double_of 0.002\<rparr>\<rparr>)"
proof -
  let ?inp = "\<lparr>radiusSlider_d = Fin 5, n1Slider_d = Fin 5, massSlider_d = Fin 50,
       manualMass_d = Fin 50, manualT_d = double_of (10 ^ 200), manualN2_d = double_of (10 ^ 308),
       fw_random_t_d = Fin 0, fw_random_n2_d = Fin 0\<rparr>"
  let ?s = "\<lparr>fw_readings_d = [], fw_mode_d = Manual,
       fw_model_d = \<lparr>model_I_d = double_of 0.005, model_Tf_d = double_of 0.002\<rparr>\<rparr>"
  have r: "fdiv (radiusSlider_d ?inp) (Fin 100) = Fin (3602879701896397 / 72057594037927936)"
    by (simp add: double_of_1_20)
  have n: "n1Slider_d ?inp = Fin 5" by simp
  have m: "fw_mode_d ?s \<noteq> Simulation" by simp
  have "fw_addReading_d ?inp ?s =
        fw_estimate_d G_ACCELERATION_d (Fin (3602879701896397 / 72057594037927936))
          (Fin (3602879701896397 / 72057594037927936)) (Fin 5)
          (Fin (884279719003555 / 562949953421312)) (double_of (10 ^ 200)) (double_of (10 ^ 308)) ?s"
    unfolding fw_addReading_d_def Let_def r n fw_h_d_example fw_manual_d_example
    using m by (simp only: if_False sum.case prod.case)
  then show ?thesis
    unfolding fw_estimate_d_example by simp
qed

end
